theory Spec2Isabelle
  imports Complex_Main "HOL-Library.AList"
begin

section \<open>Python values used by the battle engine\<close>

text \<open>
  The engine is the module \<^verbatim>\<open>a2.py\<close> with the constants of \<^verbatim>\<open>a2_support.py\<close>.
  An uncaught Python exception ends the call that raised it; the model returns the
  exception as the left summand of the result and does not describe the state the
  aborted call leaves behind.
\<close>

datatype error = NoPokemonException | NotImplementedError | IndexError | TypeError
  | ZeroDivisionError

text \<open>\<^verbatim>\<open>xs[i]\<close> on a Python list: a negative index counts from the end, and an
  index outside \<open>-len .. len - 1\<close> raises \<^verbatim>\<open>IndexError\<close>.\<close>

definition py_index :: "'a list \<Rightarrow> int \<Rightarrow> error + 'a" where
  "py_index xs i =
     (if 0 \<le> i \<and> i < int (length xs) then Inr (xs ! nat i)
      else if i < 0 \<and> - int (length xs) \<le> i then Inr (xs ! nat (int (length xs) + i))
      else Inl IndexError)"

text \<open>\<^verbatim>\<open>int(x)\<close> on a quotient: truncation toward zero.\<close>

definition py_int :: "rat \<Rightarrow> int" where
  "py_int q = (if q < 0 then \<lceil>q\<rceil> else \<lfloor>q\<rfloor>)"

text \<open>\<^verbatim>\<open>str(n)\<close> for an integer, as the f-strings of the messages print it.\<close>

fun str_nat :: "nat \<Rightarrow> string" where
  "str_nat n =
     (if n < 10 then [char_of (48 + n)]
      else str_nat (n div 10) @ [char_of (48 + n mod 10)])"

declare str_nat.simps [simp del]

definition str_int :: "int \<Rightarrow> string" where
  "str_int i = (if i < 0 then CHR ''-'' # str_nat (nat (- i)) else str_nat (nat i))"

subsection \<open>Constants of the support module\<close>

definition DEFAULT_ACTION_PRIORITY :: int where "DEFAULT_ACTION_PRIORITY = 0"
definition SPEED_BASED_ACTION_PRIORITY :: int where "SPEED_BASED_ACTION_PRIORITY = 1"
definition MAXIMUM_MOVE_SLOTS :: nat where "MAXIMUM_MOVE_SLOTS = 4"
definition MAXIMUM_POKEMON_ROSTER :: nat where "MAXIMUM_POKEMON_ROSTER = 6"

definition POKEBALL_INVALID_BATTLE_TYPE :: string where
  "POKEBALL_INVALID_BATTLE_TYPE = ''Pokeballs have no effect in trainer battles.''"
definition POKEBALL_UNSUCCESSFUL_CATCH :: "string \<Rightarrow> string" where
  "POKEBALL_UNSUCCESSFUL_CATCH n = ''It was so close, but '' @ n @ '' escaped!''"
definition POKEBALL_SUCCESSFUL_CATCH :: "string \<Rightarrow> string" where
  "POKEBALL_SUCCESSFUL_CATCH n = n @ '' was caught!''"
definition POKEBALL_FULL_TEAM :: "string \<Rightarrow> string" where
  "POKEBALL_FULL_TEAM n = n @ '' was caught, but there was no more room.''"
definition FLEE_SUCCESS :: string where "FLEE_SUCCESS = ''Got away safely!''"
definition FLEE_INVALID :: string where
  "FLEE_INVALID = ''Unable to escape a trainer battle.''"

subsection \<open>What the engine takes from outside\<close>

text \<open>
  Three things are not computed by the modelled code and are parameters of it:
  \<^item> \<open>succeeded\<close>: the value \<^verbatim>\<open>did_succeed\<close> returns, that is whether \<^verbatim>\<open>random()\<close>
    fell below the chance. Applying one action calls \<^verbatim>\<open>did_succeed\<close> at most once.
  \<^item> \<open>cube_root e\<close>: the integer \<^verbatim>\<open>int(e ** (1.0 / 3))\<close> for \<open>e \<ge> 0\<close>. The source
    evaluates the power in binary floating point, whose result at a perfect cube
    need not be the exact root; the model leaves the function open.
  \<^item> \<open>effectiveness a d\<close>: the multiplier
    \<^verbatim>\<open>ElementType.of(a).get_effectiveness(d)\<close> of the process-wide type registry,
    which \<^verbatim>\<open>a2.py\<close> reads and never changes observably (\<^verbatim>\<open>of\<close> registers an unknown
    name with an empty table, whose multipliers are the default 1.0 as before).
\<close>

record Env =
  succeeded :: bool
  cube_root :: "int \<Rightarrow> int"
  effectiveness :: "string \<Rightarrow> string \<Rightarrow> rat"

definition did_succeed :: "Env \<Rightarrow> rat \<Rightarrow> bool" where
  "did_succeed env chance = succeeded env"

section \<open>Stats\<close>

text \<open>\<^verbatim>\<open>Stats = Tuple[float, int, int, int]\<close>: hit chance, max health, attack, defense.
  The hit chance is a float in the source and an exact rational here; it only ever
  reaches \<^verbatim>\<open>did_succeed\<close>.\<close>

type_synonym Stats = "rat \<times> int \<times> int \<times> int"

definition get_hit_chance :: "Stats \<Rightarrow> rat" where
  "get_hit_chance s = fst s"
definition get_max_health :: "Stats \<Rightarrow> int" where
  "get_max_health s = fst (snd s)"
definition get_attack :: "Stats \<Rightarrow> int" where
  "get_attack s = fst (snd (snd s))"
definition get_defense :: "Stats \<Rightarrow> int" where
  "get_defense s = snd (snd (snd s))"

text \<open>\<^verbatim>\<open>int(stat * LEVEL_UP_STAT_GROWTH)\<close> with the growth 1.05. The float product
  truncates to the same integer as the exact one for every stat of a realistic size.\<close>

definition grow :: "int \<Rightarrow> int" where
  "grow stat = py_int (of_int stat * (21 / 20))"

definition PokemonStats_level_up :: "Stats \<Rightarrow> Stats" where
  "PokemonStats_level_up s = (1, grow (get_max_health s), grow (get_attack s), grow (get_defense s))"

definition apply_modifier :: "Stats \<Rightarrow> Stats \<Rightarrow> Stats" where
  "apply_modifier s modifier =
     (max 0 (get_hit_chance s + get_hit_chance modifier),
      max 0 (get_max_health s + get_max_health modifier),
      max 0 (get_attack s + get_attack modifier),
      max 0 (get_defense s + get_defense modifier))"

section \<open>Items, moves and actions\<close>

text \<open>
  \<^verbatim>\<open>Item\<close> and \<^verbatim>\<open>Move\<close> objects are dictionary keys (inventory, learned moves) and define
  no \<^verbatim>\<open>__eq__\<close>, so Python compares and hashes them by object identity. The first
  field of each constructor is that identity: two objects built from equal arguments
  are still different keys. The remaining fields are the constructor arguments of the
  source class, in its order.
\<close>

datatype Item =
    Item nat string
  | Pokeball nat string rat
  | Food nat string int

datatype Move =
    Move nat string string int int
  | Attack nat string string int int int rat
  | StatusModifier nat string string int int Stats int
  | Buff nat string string int int Stats int
  | Debuff nat string string int int Stats int

datatype Action =
    BaseAction
  | Flee
  | SwitchPokemon int
  | ItemAction Item
  | MoveAction Move

fun Item_get_name :: "Item \<Rightarrow> string" where
  "Item_get_name (Item _ n) = n"
| "Item_get_name (Pokeball _ n _) = n"
| "Item_get_name (Food _ n _) = n"

fun Move_get_name :: "Move \<Rightarrow> string" where
  "Move_get_name (Move _ n _ _ _) = n"
| "Move_get_name (Attack _ n _ _ _ _ _) = n"
| "Move_get_name (StatusModifier _ n _ _ _ _ _) = n"
| "Move_get_name (Buff _ n _ _ _ _ _) = n"
| "Move_get_name (Debuff _ n _ _ _ _ _) = n"

fun Move_get_element_type :: "Move \<Rightarrow> string" where
  "Move_get_element_type (Move _ _ t _ _) = t"
| "Move_get_element_type (Attack _ _ t _ _ _ _) = t"
| "Move_get_element_type (StatusModifier _ _ t _ _ _ _) = t"
| "Move_get_element_type (Buff _ _ t _ _ _ _) = t"
| "Move_get_element_type (Debuff _ _ t _ _ _ _) = t"

fun get_max_uses :: "Move \<Rightarrow> int" where
  "get_max_uses (Move _ _ _ u _) = u"
| "get_max_uses (Attack _ _ _ u _ _ _) = u"
| "get_max_uses (StatusModifier _ _ _ u _ _ _) = u"
| "get_max_uses (Buff _ _ _ u _ _ _) = u"
| "get_max_uses (Debuff _ _ _ u _ _ _) = u"

fun get_speed :: "Move \<Rightarrow> int" where
  "get_speed (Move _ _ _ _ s) = s"
| "get_speed (Attack _ _ _ _ s _ _) = s"
| "get_speed (StatusModifier _ _ _ _ s _ _) = s"
| "get_speed (Buff _ _ _ _ s _ _) = s"
| "get_speed (Debuff _ _ _ _ s _ _) = s"

text \<open>\<^verbatim>\<open>Action.get_priority\<close> with its override \<^verbatim>\<open>Move.get_priority\<close>.\<close>

fun get_priority :: "Action \<Rightarrow> int" where
  "get_priority (MoveAction m) = SPEED_BASED_ACTION_PRIORITY + get_speed m"
| "get_priority _ = DEFAULT_ACTION_PRIORITY"

section \<open>Pokemon\<close>

text \<open>The dictionary \<^verbatim>\<open>_moves\<close> is an association list in insertion order, as a
  Python \<^verbatim>\<open>dict\<close> keeps it: assigning to a present key keeps its place, a new key
  goes last. \<open>stats\<close> is the tuple of the pokemon's \<^verbatim>\<open>PokemonStats\<close> object, which the
  model takes to belong to this pokemon alone.\<close>

record Pokemon =
  pokemon_name :: string
  element_type :: string
  stats :: Stats
  stat_modifiers :: "(Stats \<times> int) list"
  health :: int
  level :: int
  experience :: int
  moves :: "(Move \<times> int) list"

definition can_learn_move :: "Move \<Rightarrow> Pokemon \<Rightarrow> bool" where
  "can_learn_move move p =
     (if length (moves p) \<ge> MAXIMUM_MOVE_SLOTS then False
      else move \<notin> fst ` set (moves p))"

definition learn_move :: "Move \<Rightarrow> Pokemon \<Rightarrow> Pokemon" where
  "learn_move move p = p\<lparr>moves := AList.update move (get_max_uses move) (moves p)\<rparr>"

definition forget_move :: "Move \<Rightarrow> Pokemon \<Rightarrow> Pokemon" where
  "forget_move move p =
     (if move \<in> fst ` set (moves p) then p\<lparr>moves := AList.delete move (moves p)\<rparr> else p)"

text \<open>\<^verbatim>\<open>Pokemon.__init__\<close>: the loop over \<open>moves\<close> is the fold.\<close>

definition Pokemon_init :: "string \<Rightarrow> Stats \<Rightarrow> string \<Rightarrow> Move list \<Rightarrow> int \<Rightarrow> Pokemon" where
  "Pokemon_init name st etype ms lvl =
     fold (\<lambda>move p. if can_learn_move move p then learn_move move p else p) ms
       \<lparr>pokemon_name = name, element_type = etype, stats = st, stat_modifiers = [],
        health = get_max_health st, level = lvl, experience = lvl ^ 3, moves = []\<rparr>"

definition get_remaining_move_uses :: "Move \<Rightarrow> Pokemon \<Rightarrow> int" where
  "get_remaining_move_uses move p = (case map_of (moves p) move of None \<Rightarrow> 0 | Some u \<Rightarrow> u)"

definition has_fainted :: "Pokemon \<Rightarrow> bool" where
  "has_fainted p = (health p = 0)"

definition get_stats :: "Pokemon \<Rightarrow> Stats" where
  "get_stats p = fold (\<lambda>sm result. apply_modifier result (fst sm)) (stat_modifiers p) (stats p)"

definition modify_health :: "int \<Rightarrow> Pokemon \<Rightarrow> Pokemon" where
  "modify_health change p =
     p\<lparr>health := max 0 (min (health p + change) (get_max_health (get_stats p)))\<rparr>"

definition level_up :: "Pokemon \<Rightarrow> Pokemon" where
  "level_up p =
     (let p1 = p\<lparr>level := level p + 1\<rparr>;
          old_max_hp = get_max_health (stats p1);
          p2 = p1\<lparr>stats := PokemonStats_level_up (stats p1)\<rparr>
      in modify_health (get_max_health (stats p2) - old_max_hp) p2)"

text \<open>\<^verbatim>\<open>gain_experience\<close>: \<^verbatim>\<open>range(n)\<close> is empty for \<open>n \<le> 0\<close>. A negative total makes
  the power a complex number, on which \<^verbatim>\<open>int\<close> raises \<^verbatim>\<open>TypeError\<close>.\<close>

definition gain_experience :: "Env \<Rightarrow> int \<Rightarrow> Pokemon \<Rightarrow> error + Pokemon" where
  "gain_experience env x p =
     (let p1 = p\<lparr>experience := experience p + x\<rparr>;
          start_level = level p1
      in if experience p1 < 0 then Inl TypeError
         else Inr ((level_up ^^ nat (cube_root env (experience p1) - start_level)) p1))"

text \<open>\<^verbatim>\<open>int(200 * self._level / 7)\<close>.\<close>

definition experience_on_death :: "Pokemon \<Rightarrow> int" where
  "experience_on_death p = py_int (of_int (200 * level p) / 7)"

definition reduce_move_count :: "Move \<Rightarrow> Pokemon \<Rightarrow> Pokemon" where
  "reduce_move_count move p =
     (case map_of (moves p) move of
        None \<Rightarrow> p
      | Some uses \<Rightarrow> p\<lparr>moves := AList.update move (max 0 (uses - 1)) (moves p)\<rparr>)"

definition add_stat_modifier :: "Stats \<Rightarrow> int \<Rightarrow> Pokemon \<Rightarrow> Pokemon" where
  "add_stat_modifier modifier rounds p =
     modify_health 0 (p\<lparr>stat_modifiers := stat_modifiers p @ [(modifier, rounds)]\<rparr>)"

definition post_round_actions :: "Pokemon \<Rightarrow> Pokemon" where
  "post_round_actions p =
     modify_health 0
       (p\<lparr>stat_modifiers :=
            map (\<lambda>mr. (fst mr, snd mr - 1)) (filter (\<lambda>mr. snd mr > 1) (stat_modifiers p))\<rparr>)"

section \<open>Trainer\<close>

text \<open>
  \<^verbatim>\<open>Pokemon\<close> objects are mutable and shared: a roster holds references, a captured
  pokemon is in two rosters at once, and \<^verbatim>\<open>pokemon in self._pokemon\<close> compares
  identities. A reference is an address into a store of \<^verbatim>\<open>Pokemon\<close> objects.
\<close>

type_synonym ref = nat

record Trainer =
  trainer_name :: string
  selected_pokemon :: "int option"
  pokemon :: "ref list"
  inventory :: "(Item \<times> int) list"

definition Trainer_init :: "string \<Rightarrow> Trainer" where
  "Trainer_init name =
     \<lparr>trainer_name = name, selected_pokemon = None, pokemon = [], inventory = []\<rparr>"

definition get_current_pokemon :: "Trainer \<Rightarrow> error + ref" where
  "get_current_pokemon t =
     (case selected_pokemon t of
        None \<Rightarrow> Inl NoPokemonException
      | Some i \<Rightarrow> py_index (pokemon t) i)"

definition get_all_pokemon :: "Trainer \<Rightarrow> ref list" where
  "get_all_pokemon t = pokemon t"

definition all_pokemon_fainted :: "(ref \<Rightarrow> Pokemon) \<Rightarrow> Trainer \<Rightarrow> bool" where
  "all_pokemon_fainted h t = list_all (\<lambda>r. has_fainted (h r)) (pokemon t)"

definition can_add_pokemon :: "ref \<Rightarrow> Trainer \<Rightarrow> bool" where
  "can_add_pokemon r t =
     (if r \<in> set (pokemon t) then False
      else length (pokemon t) < MAXIMUM_POKEMON_ROSTER)"

definition add_pokemon :: "ref \<Rightarrow> Trainer \<Rightarrow> Trainer" where
  "add_pokemon r t =
     (let t1 = t\<lparr>pokemon := pokemon t @ [r]\<rparr>
      in if selected_pokemon t1 = None then t1\<lparr>selected_pokemon := Some 0\<rparr> else t1)"

definition can_switch_pokemon :: "(ref \<Rightarrow> Pokemon) \<Rightarrow> int \<Rightarrow> Trainer \<Rightarrow> bool" where
  "can_switch_pokemon h index t =
     (if index < 0 \<or> index \<ge> int (length (pokemon t)) then False
      else if Some index = selected_pokemon t then False
      else \<not> has_fainted (h (pokemon t ! nat index)))"

definition switch_pokemon :: "int \<Rightarrow> Trainer \<Rightarrow> Trainer" where
  "switch_pokemon index t = t\<lparr>selected_pokemon := Some index\<rparr>"

definition add_item :: "Item \<Rightarrow> int \<Rightarrow> Trainer \<Rightarrow> Trainer" where
  "add_item item uses t =
     t\<lparr>inventory :=
         AList.update item
           ((case map_of (inventory t) item of None \<Rightarrow> 0 | Some c \<Rightarrow> c) + uses)
           (inventory t)\<rparr>"

definition has_item :: "Item \<Rightarrow> Trainer \<Rightarrow> bool" where
  "has_item item t = (item \<in> fst ` set (inventory t))"

definition use_item :: "Item \<Rightarrow> Trainer \<Rightarrow> Trainer" where
  "use_item item t =
     (case map_of (inventory t) item of
        None \<Rightarrow> t
      | Some c \<Rightarrow>
          if c - 1 = 0 then t\<lparr>inventory := AList.delete item (inventory t)\<rparr>
          else t\<lparr>inventory := AList.update item (c - 1) (inventory t)\<rparr>)"

section \<open>Battle\<close>

text \<open>
  The record holds the fields of \<^verbatim>\<open>Battle\<close>, with the two \<^verbatim>\<open>Trainer\<close> objects by value
  (the model takes them to be two different objects), and \<open>objects\<close>, the store of
  the \<^verbatim>\<open>Pokemon\<close> objects the rosters refer to. \<open>turn\<close> is \<^verbatim>\<open>None\<close>, \<^verbatim>\<open>True\<close> (the player
  is awaited) or \<^verbatim>\<open>False\<close> (the enemy is awaited).
\<close>

record Battle =
  player :: Trainer
  enemy :: Trainer
  trainer_battle :: bool
  finished_early :: bool
  turn :: "bool option"
  action_queue :: "(Action \<times> bool) list"
  objects :: "ref \<Rightarrow> Pokemon"

definition Battle_init :: "Trainer \<Rightarrow> Trainer \<Rightarrow> bool \<Rightarrow> (ref \<Rightarrow> Pokemon) \<Rightarrow> Battle" where
  "Battle_init p e is_trainer_battle h =
     \<lparr>player = p, enemy = e, trainer_battle = is_trainer_battle, finished_early = False,
      turn = None, action_queue = [], objects = h\<rparr>"

definition get_turn :: "Battle \<Rightarrow> bool option" where
  "get_turn b = turn b"

definition get_trainer :: "Battle \<Rightarrow> bool \<Rightarrow> Trainer" where
  "get_trainer b is_player = (if is_player then player b else enemy b)"

text \<open>The methods of \<^verbatim>\<open>Trainer\<close> and \<^verbatim>\<open>Pokemon\<close> mutate the object they are called on;
  the next two functions write the changed object back.\<close>

definition update_trainer :: "bool \<Rightarrow> (Trainer \<Rightarrow> Trainer) \<Rightarrow> Battle \<Rightarrow> Battle" where
  "update_trainer is_player f b =
     (if is_player then b\<lparr>player := f (player b)\<rparr> else b\<lparr>enemy := f (enemy b)\<rparr>)"

definition update_pokemon :: "ref \<Rightarrow> (Pokemon \<Rightarrow> Pokemon) \<Rightarrow> Battle \<Rightarrow> Battle" where
  "update_pokemon r f b = b\<lparr>objects := (objects b)(r := f (objects b r))\<rparr>"

definition attempt_end_early :: "Battle \<Rightarrow> Battle" where
  "attempt_end_early b = (if \<not> trainer_battle b then b\<lparr>finished_early := True\<rparr> else b)"

definition is_trainer_battle :: "Battle \<Rightarrow> bool" where
  "is_trainer_battle b = trainer_battle b"

definition is_action_queue_full :: "Battle \<Rightarrow> bool" where
  "is_action_queue_full b = (length (action_queue b) = 2)"

definition is_action_queue_empty :: "Battle \<Rightarrow> bool" where
  "is_action_queue_empty b = (length (action_queue b) = 0)"

definition trainer_has_action_queued :: "Battle \<Rightarrow> bool \<Rightarrow> bool" where
  "trainer_has_action_queued b is_player = list_ex (\<lambda>e. snd e = is_player) (action_queue b)"

definition is_ready :: "Battle \<Rightarrow> bool" where
  "is_ready b =
     (case turn b of
        None \<Rightarrow> is_action_queue_full b
      | Some t \<Rightarrow> trainer_has_action_queued b t)"

definition update_turn :: "bool \<Rightarrow> Battle \<Rightarrow> Battle" where
  "update_turn is_player b =
     (if turn b = None then b\<lparr>turn := Some (\<not> is_player)\<rparr> else b\<lparr>turn := None\<rparr>)"

definition is_over :: "Battle \<Rightarrow> bool" where
  "is_over b =
     (finished_early b \<or> all_pokemon_fainted (objects b) (player b)
      \<or> all_pokemon_fainted (objects b) (enemy b))"

section \<open>Validity of actions\<close>

text \<open>\<^verbatim>\<open>Action.is_valid\<close>, the check every subclass starts from.\<close>

definition Action_is_valid :: "Battle \<Rightarrow> bool \<Rightarrow> bool" where
  "Action_is_valid b is_player =
     (if is_over b then False
      else get_turn b = None \<or> get_turn b = Some is_player)"

text \<open>\<^verbatim>\<open>is_valid\<close> as dispatched on the class of the action. \<^verbatim>\<open>Flee\<close> looks the current
  pokemon up before the base check, the others after it.\<close>

fun is_valid :: "Action \<Rightarrow> Battle \<Rightarrow> bool \<Rightarrow> error + bool" where
  "is_valid BaseAction b is_player = Inr (Action_is_valid b is_player)"
| "is_valid Flee b is_player =
     (case get_current_pokemon (get_trainer b is_player) of
        Inl e \<Rightarrow> Inl e
      | Inr r \<Rightarrow> Inr (Action_is_valid b is_player \<and> \<not> has_fainted (objects b r)))"
| "is_valid (SwitchPokemon index) b is_player =
     (if \<not> Action_is_valid b is_player then Inr False
      else Inr (can_switch_pokemon (objects b) index (get_trainer b is_player)))"
| "is_valid (ItemAction item) b is_player =
     (if \<not> Action_is_valid b is_player then Inr False
      else case get_current_pokemon (get_trainer b is_player) of
             Inl e \<Rightarrow> Inl e
           | Inr r \<Rightarrow>
               Inr (\<not> has_fainted (objects b r) \<and> has_item item (get_trainer b is_player)))"
| "is_valid (MoveAction move) b is_player =
     (if \<not> Action_is_valid b is_player then Inr False
      else case get_current_pokemon (get_trainer b is_player) of
             Inl e \<Rightarrow> Inl e
           | Inr r \<Rightarrow>
               if has_fainted (objects b r) then Inr False
               else Inr (get_remaining_move_uses move (objects b r) \<noteq> 0))"

section \<open>Effects of actions\<close>

text \<open>An \<^verbatim>\<open>ActionSummary\<close> is its list of messages; \<^verbatim>\<open>combine\<close> is append.\<close>

type_synonym ActionSummary = "string list"

text \<open>\<^verbatim>\<open>Attack.calculate_damage\<close>. The source evaluates the quotient in floating point; the
  model takes it exactly. Dividing by a zero float raises \<^verbatim>\<open>ZeroDivisionError\<close>.\<close>

definition calculate_damage ::
  "Env \<Rightarrow> int \<Rightarrow> string \<Rightarrow> Pokemon \<Rightarrow> Pokemon \<Rightarrow> error + int" where
  "calculate_damage env base_damage move_type p enemy_pokemon =
     (let eff = effectiveness env move_type (element_type enemy_pokemon);
          pokemon_attack = get_attack (get_stats p);
          enemy_pokemon_defense = get_defense (get_stats enemy_pokemon)
      in if enemy_pokemon_defense + 1 = 0 then Inl ZeroDivisionError
         else Inr (py_int (of_int base_damage * eff * of_int pokemon_attack
                            / of_int (enemy_pokemon_defense + 1))))"

definition did_hit :: "Env \<Rightarrow> rat \<Rightarrow> Pokemon \<Rightarrow> bool" where
  "did_hit env hit_chance p = did_succeed env (get_hit_chance (get_stats p) * hit_chance)"

text \<open>\<^verbatim>\<open>apply_ally_effects\<close>: only \<^verbatim>\<open>Buff\<close> overrides the empty default of \<^verbatim>\<open>Move\<close>.\<close>

fun apply_ally_effects :: "Move \<Rightarrow> bool \<Rightarrow> Battle \<Rightarrow> error + (Battle \<times> ActionSummary)" where
  "apply_ally_effects (Buff _ _ _ _ _ modification rounds) is_player b =
     (case get_current_pokemon (get_trainer b is_player) of
        Inl e \<Rightarrow> Inl e
      | Inr r \<Rightarrow>
          Inr (update_pokemon r (add_stat_modifier modification rounds) b,
               [pokemon_name (objects b r) @ '' was buffed for '' @ str_int rounds @ '' turns.'']))"
| "apply_ally_effects _ is_player b = Inr (b, [])"

text \<open>\<^verbatim>\<open>apply_enemy_effects\<close>: overridden by \<^verbatim>\<open>Attack\<close> and \<^verbatim>\<open>Debuff\<close>. The two current
  pokemon are read and written through the store, one after the other, as the source
  does through its two references.\<close>

fun apply_enemy_effects ::
  "Env \<Rightarrow> Move \<Rightarrow> bool \<Rightarrow> Battle \<Rightarrow> error + (Battle \<times> ActionSummary)" where
  "apply_enemy_effects env (Attack _ _ move_type _ _ base_damage hit_chance) is_player b =
     (case get_current_pokemon (get_trainer b is_player) of
        Inl e \<Rightarrow> Inl e
      | Inr pr \<Rightarrow>
     (case get_current_pokemon (get_trainer b (\<not> is_player)) of
        Inl e \<Rightarrow> Inl e
      | Inr er \<Rightarrow>
          if \<not> did_hit env hit_chance (objects b pr)
          then Inr (b, [pokemon_name (objects b pr) @ '' missed!''])
          else
     (case calculate_damage env base_damage move_type (objects b pr) (objects b er) of
        Inl e \<Rightarrow> Inl e
      | Inr damage \<Rightarrow>
          let b1 = update_pokemon er (modify_health (- damage)) b
          in if has_fainted (objects b1 er)
             then let exp = experience_on_death (objects b1 er)
                  in (case gain_experience env exp (objects b1 pr) of
                        Inl e \<Rightarrow> Inl e
                      | Inr p' \<Rightarrow>
                          Inr (update_pokemon pr (\<lambda>_. p') b1,
                               [pokemon_name (objects b1 er) @ '' has fainted.'',
                                pokemon_name (objects b1 pr) @ '' gained '' @ str_int exp
                                  @ '' exp.'']))
             else Inr (b1, []))))"
| "apply_enemy_effects env (Debuff _ _ _ _ _ modification rounds) is_player b =
     (case get_current_pokemon (get_trainer b (\<not> is_player)) of
        Inl e \<Rightarrow> Inl e
      | Inr r \<Rightarrow>
          Inr (update_pokemon r (add_stat_modifier modification rounds) b,
               [pokemon_name (objects b r) @ '' was debuffed for '' @ str_int rounds
                  @ '' turns.'']))"
| "apply_enemy_effects env _ is_player b = Inr (b, [])"

text \<open>\<^verbatim>\<open>Move.apply\<close>. Neither effect changes a trainer, so the last
  \<^verbatim>\<open>player.get_current_pokemon()\<close> is the pokemon found at the start.\<close>

definition Move_apply ::
  "Env \<Rightarrow> Move \<Rightarrow> Battle \<Rightarrow> bool \<Rightarrow> error + (Battle \<times> ActionSummary)" where
  "Move_apply env move b is_player =
     (case get_current_pokemon (get_trainer b is_player) of
        Inl e \<Rightarrow> Inl e
      | Inr r \<Rightarrow>
     (case apply_ally_effects move is_player b of
        Inl e \<Rightarrow> Inl e
      | Inr (b1, ally) \<Rightarrow>
     (case apply_enemy_effects env move is_player b1 of
        Inl e \<Rightarrow> Inl e
      | Inr (b2, foe) \<Rightarrow>
          Inr (update_pokemon r (reduce_move_count move) b2,
               [pokemon_name (objects b r) @ '' used '' @ Move_get_name move @ ''.'']
                 @ ally @ foe))))"

text \<open>\<^verbatim>\<open>Pokeball.apply\<close>.\<close>

definition Pokeball_apply ::
  "Env \<Rightarrow> Item \<Rightarrow> rat \<Rightarrow> Battle \<Rightarrow> bool \<Rightarrow> error + (Battle \<times> ActionSummary)" where
  "Pokeball_apply env item catch_chance b is_player =
     (let b1 = update_trainer is_player (use_item item) b
      in if is_trainer_battle b1 then Inr (b1, [POKEBALL_INVALID_BATTLE_TYPE])
         else
     (case get_current_pokemon (get_trainer b1 (\<not> is_player)) of
        Inl e \<Rightarrow> Inl e
      | Inr enemy_pokemon \<Rightarrow>
          let name = pokemon_name (objects b1 enemy_pokemon)
          in if \<not> did_succeed env catch_chance
             then Inr (b1, [POKEBALL_UNSUCCESSFUL_CATCH name])
             else if can_add_pokemon enemy_pokemon (get_trainer b1 is_player)
             then Inr (attempt_end_early
                         (update_trainer is_player (add_pokemon enemy_pokemon) b1),
                       [POKEBALL_SUCCESSFUL_CATCH name])
             else Inr (attempt_end_early b1, [POKEBALL_FULL_TEAM name])))"

text \<open>\<^verbatim>\<open>Food.apply\<close>.\<close>

definition Food_apply ::
  "Item \<Rightarrow> int \<Rightarrow> Battle \<Rightarrow> bool \<Rightarrow> error + (Battle \<times> ActionSummary)" where
  "Food_apply item health_restored b is_player =
     (case get_current_pokemon (get_trainer b is_player) of
        Inl e \<Rightarrow> Inl e
      | Inr r \<Rightarrow>
          Inr (update_trainer is_player (use_item item)
                 (update_pokemon r (modify_health health_restored) b),
               [pokemon_name (objects b r) @ '' ate '' @ Item_get_name item @ ''.'']))"

text \<open>\<^verbatim>\<open>SwitchPokemon.apply\<close>.\<close>

definition SwitchPokemon_apply ::
  "int \<Rightarrow> Battle \<Rightarrow> bool \<Rightarrow> error + (Battle \<times> ActionSummary)" where
  "SwitchPokemon_apply index b is_player =
     (let trainer = get_trainer b is_player
      in case get_current_pokemon trainer of
           Inl e \<Rightarrow> Inl e
         | Inr r \<Rightarrow>
        (case py_index (get_all_pokemon trainer) index of
           Inl e \<Rightarrow> Inl e
         | Inr next_pokemon \<Rightarrow>
             Inr (update_trainer is_player (switch_pokemon index) b,
                  (if is_player \<and> \<not> has_fainted (objects b r)
                   then [pokemon_name (objects b r) @ '', return!''] else [])
                  @ [trainer_name trainer @ '' switched to ''
                       @ pokemon_name (objects b next_pokemon) @ ''.''])))"

text \<open>\<^verbatim>\<open>apply\<close> as dispatched on the class of the action. The abstract classes \<^verbatim>\<open>Action\<close>
  and \<^verbatim>\<open>Item\<close> have the \<^verbatim>\<open>apply\<close> that raises \<^verbatim>\<open>NotImplementedError\<close>.\<close>

fun apply_action ::
  "Env \<Rightarrow> Action \<Rightarrow> Battle \<Rightarrow> bool \<Rightarrow> error + (Battle \<times> ActionSummary)" where
  "apply_action env BaseAction b is_player = Inl NotImplementedError"
| "apply_action env Flee b is_player =
     (let b1 = attempt_end_early b
      in Inr (b1, [if is_trainer_battle b1 then FLEE_INVALID else FLEE_SUCCESS]))"
| "apply_action env (SwitchPokemon index) b is_player = SwitchPokemon_apply index b is_player"
| "apply_action env (ItemAction (Item i n)) b is_player = Inl NotImplementedError"
| "apply_action env (ItemAction (Pokeball i n catch_chance)) b is_player =
     Pokeball_apply env (Pokeball i n catch_chance) catch_chance b is_player"
| "apply_action env (ItemAction (Food i n health_restored)) b is_player =
     Food_apply (Food i n health_restored) health_restored b is_player"
| "apply_action env (MoveAction move) b is_player = Move_apply env move b is_player"

section \<open>The queue and the turn\<close>

definition queue_action :: "Action \<Rightarrow> bool \<Rightarrow> Battle \<Rightarrow> error + Battle" where
  "queue_action action is_player b =
     (if trainer_has_action_queued b is_player \<or> is_ready b then Inr b
      else case is_valid action b is_player of
             Inl e \<Rightarrow> Inl e
           | Inr valid \<Rightarrow>
               if \<not> valid then Inr b
               else Inr (b\<lparr>action_queue := action_queue b @ [(action, is_player)]\<rparr>))"

text \<open>\<^verbatim>\<open>list.sort\<close> with a key is stable, as \<open>sort_key\<close> is.\<close>

definition sort_actions :: "Battle \<Rightarrow> Battle" where
  "sort_actions b =
     (if \<not> is_action_queue_full b then b
      else b\<lparr>action_queue := sort_key (\<lambda>x. get_priority (fst x)) (action_queue b)\<rparr>)"

text \<open>The round-boundary upkeep, lines 826 to 827 of \<^verbatim>\<open>enact_turn\<close>.\<close>

definition post_round :: "Battle \<Rightarrow> error + Battle" where
  "post_round b =
     (case get_current_pokemon (player b) of
        Inl e \<Rightarrow> Inl e
      | Inr pr \<Rightarrow>
          let b1 = update_pokemon pr post_round_actions b
          in (case get_current_pokemon (enemy b1) of
                Inl e \<Rightarrow> Inl e
              | Inr er \<Rightarrow> Inr (update_pokemon er post_round_actions b1)))"

text \<open>What \<^verbatim>\<open>enact_turn\<close> does with the entry it popped, lines 821 to 829. The result
  \<open>None\<close> is the \<^verbatim>\<open>None\<close> the method returns by falling off its end.\<close>

definition resolve ::
  "Env \<Rightarrow> Action \<Rightarrow> bool \<Rightarrow> Battle \<Rightarrow> error + (Battle \<times> ActionSummary option)" where
  "resolve env next_action is_player b =
     (case is_valid next_action b is_player of
        Inl e \<Rightarrow> Inl e
      | Inr valid \<Rightarrow>
          if valid then
            (case apply_action env next_action b is_player of
               Inl e \<Rightarrow> Inl e
             | Inr (b1, result) \<Rightarrow>
                 let b2 = update_turn is_player b1
                 in if turn b2 = None
                    then (case post_round b2 of
                            Inl e \<Rightarrow> Inl e
                          | Inr b3 \<Rightarrow> Inr (b3, Some result))
                    else Inr (b2, Some result))
          else Inr (b, None))"

definition enact_turn :: "Env \<Rightarrow> Battle \<Rightarrow> error + (Battle \<times> ActionSummary option)" where
  "enact_turn env b =
     (if is_action_queue_empty b then Inr (b, None)
      else case action_queue (sort_actions b) of
             [] \<Rightarrow> Inl IndexError
           | (next_action, is_player) # rest \<Rightarrow>
               resolve env next_action is_player ((sort_actions b)\<lparr>action_queue := rest\<rparr>))"


section \<open>Further functions of the source\<close>

text \<open>
  \<^verbatim>\<open>Pokemon.get_next_level_experience_requirement\<close>: the total experience at which the
  pokemon is one level higher.
\<close>

definition get_next_level_experience_requirement :: "Pokemon \<Rightarrow> int" where
  "get_next_level_experience_requirement p = (level p + 1) ^ 3"

text \<open>
  \<^verbatim>\<open>create_encounter\<close>: the wild pokemon is the only pokemon of a trainer whose name is
  the empty string, and the battle is not a trainer battle.
\<close>

definition create_encounter :: "Trainer \<Rightarrow> ref \<Rightarrow> (ref \<Rightarrow> Pokemon) \<Rightarrow> Battle" where
  "create_encounter trainer wild_pokemon h =
     Battle_init trainer (add_pokemon wild_pokemon (Trainer_init [])) False h"

section \<open>Sequences of operations\<close>

text \<open>
  The inventory operations of a trainer, run in order, and the condition that every
  \<^verbatim>\<open>add_item\<close> of a sequence adds at least one use.
\<close>

datatype InventoryOp = AddItem Item int | UseItem Item

fun inventory_op :: "InventoryOp \<Rightarrow> Trainer \<Rightarrow> Trainer" where
  "inventory_op (AddItem item uses) t = add_item item uses t"
| "inventory_op (UseItem item) t = use_item item t"

fun adds_at_least_one :: "InventoryOp \<Rightarrow> bool" where
  "adds_at_least_one (AddItem item uses) = (1 \<le> uses)"
| "adds_at_least_one (UseItem item) = True"

text \<open>
  The state of an inventory whose keys are distinct (as those of a dictionary are)
  and all of whose stored counts are at least one.
\<close>

definition counts_positive :: "Trainer \<Rightarrow> bool" where
  "counts_positive t =
     (distinct (map fst (inventory t)) \<and> list_all (\<lambda>e. 1 \<le> snd e) (inventory t))"

text \<open>
  The move operations of a pokemon. \<open>Learn\<close> is \<^verbatim>\<open>learn_move\<close> under the guard
  \<^verbatim>\<open>can_learn_move\<close>, as the constructor calls it; \<open>learn_step\<close> is the body of the
  constructor's loop.
\<close>

datatype MoveOp = Learn Move | Forget Move

fun move_op :: "MoveOp \<Rightarrow> Pokemon \<Rightarrow> Pokemon" where
  "move_op (Learn move) p = (if can_learn_move move p then learn_move move p else p)"
| "move_op (Forget move) p = forget_move move p"

definition learn_step :: "Move \<Rightarrow> Pokemon \<Rightarrow> Pokemon" where
  "learn_step move p = (if can_learn_move move p then learn_move move p else p)"

text \<open>
  The elements of a list in the order of their first occurrence, each once.
\<close>

definition first_occurrences :: "'a list \<Rightarrow> 'a list" where
  "first_occurrences xs = rev (remdups (rev xs))"

definition moves_ok :: "Pokemon \<Rightarrow> bool" where
  "moves_ok p = (distinct (map fst (moves p)) \<and> length (moves p) \<le> MAXIMUM_MOVE_SLOTS)"

section \<open>Example data\<close>

text \<open>
  The moves \<open>tackle\<close> (priority 101), \<open>toxic\<close> (priority 71) and \<open>meditate\<close> are those of
  the docstrings of \<^verbatim>\<open>a2.py\<close>. \<open>example_cube_root\<close> lists the values CPython computes for
  \<^verbatim>\<open>int(e ** (1.0 / 3))\<close> on \<open>0 \<le> e \<le> 342\<close>: the power is one below the exact root at the
  perfect cubes 64, 125 and 216 (\<^verbatim>\<open>64 ** (1.0 / 3)\<close> is \<^verbatim>\<open>3.9999999999999996\<close>).
\<close>

definition tackle :: Move where
  "tackle = Attack 1 ''tackle'' ''normal'' 15 100 40 (19 / 20)"

definition toxic :: Move where
  "toxic = Debuff 2 ''toxic'' ''poison'' 10 70 (0, - 50, 0, - 50) 4"

definition meditate :: Move where
  "meditate = Buff 3 ''meditate'' ''psychic'' 5 80 (1 / 5, 100, 100, 100) 5"

definition ember :: Move where
  "ember = Attack 5 ''ember'' ''fire'' 25 100 40 1"

definition growl :: Move where
  "growl = Debuff 6 ''growl'' ''normal'' 40 100 (0, 0, - 10, 0) 3"

definition slam :: Move where
  "slam = Attack 7 ''slam'' ''normal'' 20 50 1000 1"

definition master_ball :: Item where
  "master_ball = Pokeball 4 ''Master Ball'' 1"

definition great_ball :: Item where "great_ball = Pokeball 1 ''Great Ball'' (3 / 5)"

definition whopper :: Item where "whopper = Food 2 ''Whopper'' 69"

definition pikachu :: Pokemon where
  "pikachu = Pokemon_init ''Pikachu'' (1, 100, 200, 200) ''electric'' [tackle, toxic] 5"

definition geodude :: Pokemon where
  "geodude = Pokemon_init ''Geodude'' (1, 100, 200, 200) ''rock'' [tackle, toxic] 5"

definition eevee :: Pokemon where
  "eevee = Pokemon_init ''Eevee'' (1, 100, 100, 100) ''normal'' [] 3"

definition onix :: Pokemon where
  "onix = Pokemon_init ''Onix'' (1, 100, 200, 200) ''rock'' [slam] 5"

definition example_objects :: "ref \<Rightarrow> Pokemon" where
  "example_objects r =
     (if r = 0 then pikachu else if r = 1 then geodude else if r = 3 then onix else eevee)"

definition ash :: Trainer where
  "ash = add_item master_ball 1 (add_pokemon 0 (Trainer_init ''Ash''))"

definition brock :: Trainer where
  "brock = add_pokemon 1 (Trainer_init ''Brock'')"

definition gary :: Trainer where
  "gary = add_pokemon 3 (Trainer_init ''Gary'')"

definition full_ash :: Trainer where
  "full_ash = fold add_pokemon [2, 3, 4, 5, 6] ash"

definition example_cube_root :: "int \<Rightarrow> int" where
  "example_cube_root e =
     (if e < 1 then 0 else if e < 8 then 1 else if e < 27 then 2 else if e \<le> 64 then 3
      else if e \<le> 125 then 4 else if e \<le> 216 then 5 else 6)"

definition example_env :: Env where
  "example_env = \<lparr>succeeded = True, cube_root = example_cube_root, effectiveness = (\<lambda>a d. 1)\<rparr>"

definition duel :: Battle where
  "duel = Battle_init ash brock True example_objects"

definition wild :: Battle where
  "wild = create_encounter ash 1 example_objects"

definition wild_full :: Battle where
  "wild_full = create_encounter full_ash 1 example_objects"

text \<open>
  \<open>knockout\<close>: a duel whose two actions are queued, Ash's tackle and Gary's faster slam,
  which takes all of the pikachu's health. \<open>stale\<close> is the battle after the slam has been
  resolved: the player is awaited, his pikachu has fainted, his other pokemon has not,
  and the tackle is still in the queue.
  \<open>early\<close> and \<open>late\<close>: a round with both actions queued, and a round whose second action
  is awaited from the enemy.
\<close>

definition knockout :: Battle where
  "knockout = (Battle_init (add_pokemon 2 ash) gary True example_objects)
                \<lparr>action_queue := [(MoveAction tackle, True), (MoveAction slam, False)]\<rparr>"

definition stale :: Battle where
  "stale = (Battle_init (add_pokemon 2 ash) gary True
              (example_objects
                 (0 := pikachu\<lparr>health := 0\<rparr>,
                  3 := onix\<lparr>stats := (1, 105, 210, 210), health := 105, level := 6,
                             experience := 267, moves := [(slam, 19)]\<rparr>)))
            \<lparr>turn := Some True, action_queue := [(MoveAction tackle, True)]\<rparr>"

definition early :: Battle where
  "early = duel\<lparr>action_queue := [(MoveAction tackle, True), (MoveAction toxic, False)]\<rparr>"

definition late :: Battle where
  "late = duel\<lparr>turn := Some False, action_queue := [(MoveAction toxic, False)]\<rparr>"

section \<open>The inventory\<close>

lemma set_update_subset: "set (AList.update k v al) \<subseteq> insert (k, v) (set al)"
  by (induction al) auto

lemma set_delete_subset: "set (AList.delete k al) \<subseteq> set al"
  by (auto simp: AList.delete_eq)

lemma counts_positive_add_item:
  assumes "counts_positive t" "1 \<le> uses"
  shows "counts_positive (add_item item uses t)"
proof -
  have d: "distinct (map fst (inventory t))" and pos: "\<forall>e\<in>set (inventory t). 1 \<le> snd e"
    using assms(1) by (auto simp: counts_positive_def list_all_iff)
  have "1 \<le> (case map_of (inventory t) item of None \<Rightarrow> 0 | Some c \<Rightarrow> c) + uses"
  proof (cases "map_of (inventory t) item")
    case None
    then show ?thesis using assms(2) by simp
  next
    case (Some c)
    then have "(item, c) \<in> set (inventory t)" by (rule map_of_SomeD)
    then have "1 \<le> c" using pos by fastforce
    then show ?thesis using Some assms(2) by simp
  qed
  then show ?thesis
    using d pos set_update_subset [of item _ "inventory t"]
    by (fastforce simp: counts_positive_def add_item_def list_all_iff distinct_update)
qed

lemma counts_positive_use_item:
  assumes "counts_positive t"
  shows "counts_positive (use_item item t)"
proof -
  have d: "distinct (map fst (inventory t))" and pos: "\<forall>e\<in>set (inventory t). 1 \<le> snd e"
    using assms(1) by (auto simp: counts_positive_def list_all_iff)
  show ?thesis
  proof (cases "map_of (inventory t) item")
    case None
    then show ?thesis using assms by (simp add: use_item_def)
  next
    case (Some c)
    then have "(item, c) \<in> set (inventory t)" by (rule map_of_SomeD)
    then have c: "1 \<le> c" using pos by fastforce
    show ?thesis
    proof (cases "c - 1 = 0")
      case True
      then show ?thesis
        using Some d pos set_delete_subset [of item "inventory t"]
        by (auto simp: counts_positive_def use_item_def list_all_iff distinct_delete)
    next
      case False
      then have "1 \<le> c - 1" using c by simp
      then show ?thesis
        using Some False d pos set_update_subset [of item "c - 1" "inventory t"]
        by (fastforce simp: counts_positive_def use_item_def list_all_iff distinct_update)
    qed
  qed
qed

lemma counts_positive_fold:
  "counts_positive t \<Longrightarrow> list_all adds_at_least_one ops \<Longrightarrow>
   counts_positive (fold inventory_op ops t)"
proof (induction ops arbitrary: t)
  case Nil
  then show ?case by simp
next
  case (Cons op ops)
  have "counts_positive (inventory_op op t)"
    using Cons.prems
    by (cases op) (simp_all add: counts_positive_add_item counts_positive_use_item)
  then show ?case using Cons by simp
qed

lemma has_item_positive:
  assumes "counts_positive t"
  shows "has_item item t \<longleftrightarrow> (\<exists>c. 1 \<le> c \<and> (item, c) \<in> set (inventory t))"
proof
  assume "has_item item t"
  then obtain c where c: "(item, c) \<in> set (inventory t)"
    by (auto simp: has_item_def)
  then have "1 \<le> c"
    using assms by (auto simp: counts_positive_def list_all_iff)
  then show "\<exists>c. 1 \<le> c \<and> (item, c) \<in> set (inventory t)" using c by blast
next
  assume "\<exists>c. 1 \<le> c \<and> (item, c) \<in> set (inventory t)"
  then show "has_item item t" by (force simp: has_item_def)
qed

text \<open>
  Claim C8, as amended. From an inventory whose stored counts are all at least one
  (the empty inventory of a new trainer is one), every sequence of \<^verbatim>\<open>add_item\<close> and
  \<^verbatim>\<open>use_item\<close> calls in which each \<^verbatim>\<open>add_item\<close> adds at least one use leaves every stored
  count at least one, and then \<^verbatim>\<open>has_item\<close> holds of an item exactly when the inventory
  maps it to a count of at least one.
\<close>

theorem inventory_counts_positive:
  assumes "counts_positive t" and "list_all adds_at_least_one ops"
  shows "counts_positive (fold inventory_op ops t)
       \<and> (\<forall>item c. (item, c) \<in> set (inventory (fold inventory_op ops t)) \<longrightarrow> 1 \<le> c)
       \<and> (\<forall>item. has_item item (fold inventory_op ops t) \<longleftrightarrow>
             (\<exists>c. 1 \<le> c \<and> map_of (inventory (fold inventory_op ops t)) item = Some c))"
proof -
  let ?t = "fold inventory_op ops t"
  have inv: "counts_positive ?t" using assms by (rule counts_positive_fold)
  then have d: "distinct (map fst (inventory ?t))"
    and pos: "\<forall>e\<in>set (inventory ?t). 1 \<le> snd e"
    by (auto simp: counts_positive_def list_all_iff)
  have "has_item item ?t \<longleftrightarrow> (\<exists>c. 1 \<le> c \<and> map_of (inventory ?t) item = Some c)" for item
    using has_item_positive [OF inv, of item] d by (auto simp: map_of_eq_Some_iff)
  then show ?thesis using inv pos by fastforce
qed

text \<open>
  An instance: two uses of food are added and both are used, which removes the key;
  then one ball is added.
\<close>

theorem inventory_counts_positive_witness:
  "counts_positive (Trainer_init ''Ash'')
   \<and> list_all adds_at_least_one [AddItem whopper 2, UseItem whopper, UseItem whopper, AddItem great_ball 1]
   \<and> inventory (fold inventory_op [AddItem whopper 2, UseItem whopper, UseItem whopper, AddItem great_ball 1]
        (Trainer_init ''Ash'')) = [(great_ball, 1)]
   \<and> has_item great_ball (fold inventory_op [AddItem whopper 2, UseItem whopper, UseItem whopper, AddItem great_ball 1]
        (Trainer_init ''Ash''))
   \<and> \<not> has_item whopper (fold inventory_op [AddItem whopper 2, UseItem whopper, UseItem whopper, AddItem great_ball 1]
        (Trainer_init ''Ash''))"
proof -
  have a: "counts_positive (Trainer_init ''Ash'')"
    by (simp add: counts_positive_def Trainer_init_def)
  have b: "list_all adds_at_least_one [AddItem whopper 2, UseItem whopper, UseItem whopper, AddItem great_ball 1]"
    by simp
  have c: "inventory (fold inventory_op [AddItem whopper 2, UseItem whopper, UseItem whopper, AddItem great_ball 1]
        (Trainer_init ''Ash'')) = [(great_ball, 1)]"
    by (simp add: Trainer_init_def add_item_def use_item_def whopper_def great_ball_def)
  show ?thesis
    using inventory_counts_positive [OF a b] a b c
    by (simp add: great_ball_def whopper_def)
qed

text \<open>
  Claim C8 as stated fails: \<^verbatim>\<open>add_item(item, 0)\<close> on a new trainer stores the count 0, and
  \<^verbatim>\<open>has_item\<close> is then true of an item with no use left.
\<close>

theorem add_item_zero_counterexample:
  "inventory (add_item whopper 0 (Trainer_init ''Ash'')) = [(whopper, 0)]
   \<and> has_item whopper (add_item whopper 0 (Trainer_init ''Ash''))"
  by (simp add: add_item_def Trainer_init_def has_item_def)

section \<open>The selected pokemon\<close>

text \<open>
  Claim C10, as amended. \<^verbatim>\<open>switch_pokemon\<close> sets the selection to the index whatever it
  is. \<^verbatim>\<open>get_current_pokemon\<close> then indexes the roster as Python does: it raises
  \<^verbatim>\<open>IndexError\<close> exactly when the index is below \<open>-len\<close> or at least \<open>len\<close>, and never
  \<^verbatim>\<open>NoPokemonException\<close>. \<^verbatim>\<open>NoPokemonException\<close> is raised exactly when the selection is
  unset, which is the state of a new trainer and is left by \<^verbatim>\<open>add_pokemon\<close> as well as by
  \<^verbatim>\<open>switch_pokemon\<close>.
\<close>

theorem switch_pokemon_unchecked:
  "switch_pokemon index t = t\<lparr>selected_pokemon := Some index\<rparr>
   \<and> get_current_pokemon (switch_pokemon index t) = py_index (pokemon t) index
   \<and> (get_current_pokemon (switch_pokemon index t) = Inl IndexError
        \<longleftrightarrow> index < - int (length (pokemon t)) \<or> int (length (pokemon t)) \<le> index)
   \<and> get_current_pokemon (switch_pokemon index t) \<noteq> Inl NoPokemonException
   \<and> (get_current_pokemon t = Inl NoPokemonException \<longleftrightarrow> selected_pokemon t = None)
   \<and> selected_pokemon (Trainer_init name) = None
   \<and> selected_pokemon (add_pokemon r t) \<noteq> None"
  by (auto simp: switch_pokemon_def get_current_pokemon_def py_index_def Trainer_init_def
      add_pokemon_def Let_def split: option.splits)

text \<open>
  Claim C10 as stated fails twice. With one pokemon in the roster the index \<open>-1\<close> is
  out of the bounds \<^verbatim>\<open>can_switch_pokemon\<close> accepts, yet after \<^verbatim>\<open>switch_pokemon(-1)\<close> the
  current pokemon is the last of the roster and nothing is raised. And a trainer to
  whom no pokemon was ever added raises \<^verbatim>\<open>IndexError\<close>, not \<^verbatim>\<open>NoPokemonException\<close>, once
  \<^verbatim>\<open>switch_pokemon\<close> has been called.
\<close>

theorem switch_pokemon_counterexample:
  "pokemon (add_pokemon 7 (Trainer_init ''Ash'')) = [7]
   \<and> get_current_pokemon (switch_pokemon (- 1) (add_pokemon 7 (Trainer_init ''Ash''))) = Inr 7
   \<and> pokemon (switch_pokemon 0 (Trainer_init ''Brock'')) = []
   \<and> get_current_pokemon (switch_pokemon 0 (Trainer_init ''Brock'')) = Inl IndexError"
  by (simp add: switch_pokemon_def get_current_pokemon_def py_index_def
      Trainer_init_def add_pokemon_def)

section \<open>Learned moves\<close>

lemma update_fresh: "k \<notin> fst ` set al \<Longrightarrow> AList.update k v al = al @ [(k, v)]"
  by (induction al) auto

lemma first_occurrences_snoc:
  "first_occurrences (xs @ [x]) =
     (if x \<in> set xs then first_occurrences xs else first_occurrences xs @ [x])"
  by (simp add: first_occurrences_def)

lemma set_first_occurrences: "set (first_occurrences xs) = set xs"
  by (simp add: first_occurrences_def)

lemma learn_step_moves:
  assumes "moves p = map (\<lambda>m. (m, get_max_uses m)) (take 4 (first_occurrences ms))"
  shows "moves (learn_step x p) = map (\<lambda>m. (m, get_max_uses m)) (take 4 (first_occurrences (ms @ [x])))"
proof -
  let ?f = "first_occurrences ms"
  have keys: "fst ` set (moves p) = set (take 4 ?f)"
    using assms by (force simp: image_iff)
  have len: "length (moves p) = min (length ?f) 4" using assms by simp
  show ?thesis
  proof (cases "can_learn_move x p")
    case True
    then have l: "length ?f < 4" and nx: "x \<notin> set (take 4 ?f)"
      using keys len by (auto simp: can_learn_move_def MAXIMUM_MOVE_SLOTS_def split: if_splits)
    then have "x \<notin> set ms" using set_first_occurrences [of ms] by simp
    then have "take 4 (first_occurrences (ms @ [x])) = ?f @ [x]"
      using l by (simp add: first_occurrences_snoc)
    moreover have "moves (learn_step x p) = moves p @ [(x, get_max_uses x)]"
      using True nx keys by (simp add: learn_step_def learn_move_def update_fresh)
    ultimately show ?thesis using assms l by simp
  next
    case False
    then have "4 \<le> length ?f \<or> x \<in> set (take 4 ?f)"
      using keys len by (auto simp: can_learn_move_def MAXIMUM_MOVE_SLOTS_def split: if_splits)
    then have "take 4 (first_occurrences (ms @ [x])) = take 4 ?f"
    proof
      assume "4 \<le> length ?f"
      then show ?thesis by (simp add: first_occurrences_snoc)
    next
      assume "x \<in> set (take 4 ?f)"
      then have "x \<in> set ms" using set_first_occurrences [of ms] by (auto dest: in_set_takeD)
      then show ?thesis by (simp add: first_occurrences_snoc)
    qed
    then show ?thesis using False assms by (simp add: learn_step_def)
  qed
qed

lemma fold_learn_moves:
  "moves (fold learn_step ms
      \<lparr>pokemon_name = n, element_type = et, stats = st, stat_modifiers = [],
        health = hp, level = lvl, experience = ex, moves = []\<rparr>)
   = map (\<lambda>m. (m, get_max_uses m)) (take 4 (first_occurrences ms))"
proof (induction ms rule: rev_induct)
  case Nil
  then show ?case by (simp add: first_occurrences_def)
next
  case (snoc x xs)
  then show ?case by (simp add: learn_step_moves)
qed

lemma Pokemon_init_moves:
  "moves (Pokemon_init n st et ms lvl) = map (\<lambda>m. (m, get_max_uses m)) (take 4 (first_occurrences ms))"
proof -
  have "(\<lambda>move p. if can_learn_move move p then learn_move move p else p) = learn_step"
    by (simp add: learn_step_def fun_eq_iff)
  then show ?thesis unfolding Pokemon_init_def by (simp add: fold_learn_moves)
qed

lemma moves_ok_move_op: "moves_ok p \<Longrightarrow> moves_ok (move_op op p)"
proof (cases op)
  case (Learn m)
  assume "moves_ok p"
  then show ?thesis using Learn
    by (auto simp: moves_ok_def can_learn_move_def learn_move_def update_fresh distinct_update)
next
  case (Forget m)
  assume "moves_ok p"
  then show ?thesis using Forget length_delete_le [of m "moves p"]
    by (auto simp: moves_ok_def forget_move_def distinct_delete)
qed

lemma moves_ok_fold: "moves_ok p \<Longrightarrow> moves_ok (fold move_op ops p)"
  by (induction ops arbitrary: p) (simp_all add: moves_ok_move_op)

lemma distinct_first_occurrences: "distinct (first_occurrences xs)"
  by (simp add: first_occurrences_def)

text \<open>
  Claim C9. The constructor learns the moves of its list in order, each under
  \<^verbatim>\<open>can_learn_move\<close>: the pokemon knows the first four distinct moves of the list, each
  with its maximal uses, so at most four; and it still knows at most four after any
  sequence of guarded \<^verbatim>\<open>learn_move\<close> and of \<^verbatim>\<open>forget_move\<close> calls.
\<close>

theorem at_most_four_moves:
  "moves (Pokemon_init n st et ms lvl) =
      map (\<lambda>m. (m, get_max_uses m)) (take MAXIMUM_MOVE_SLOTS (first_occurrences ms))
   \<and> length (moves (Pokemon_init n st et ms lvl)) \<le> MAXIMUM_MOVE_SLOTS
   \<and> length (moves (fold move_op ops (Pokemon_init n st et ms lvl))) \<le> MAXIMUM_MOVE_SLOTS"
proof -
  have m: "moves (Pokemon_init n st et ms lvl) =
      map (\<lambda>m. (m, get_max_uses m)) (take 4 (first_occurrences ms))"
    by (rule Pokemon_init_moves)
  have "map fst (moves (Pokemon_init n st et ms lvl)) = take 4 (first_occurrences ms)"
    unfolding m by (simp add: comp_def)
  then have "moves_ok (Pokemon_init n st et ms lvl)"
    using m by (simp add: moves_ok_def distinct_first_occurrences MAXIMUM_MOVE_SLOTS_def)
  then have "moves_ok (fold move_op ops (Pokemon_init n st et ms lvl))"
    by (rule moves_ok_fold)
  then show ?thesis using m by (simp add: moves_ok_def MAXIMUM_MOVE_SLOTS_def)
qed

section \<open>Experience and level\<close>

lemma level_level_up: "level (level_up p) = level p + 1"
  by (simp add: level_up_def modify_health_def Let_def)

lemma experience_level_up: "experience (level_up p) = experience p"
  by (simp add: level_up_def modify_health_def Let_def)

lemma level_up_experience_update:
  "level_up (p\<lparr>experience := v\<rparr>) = (level_up p)\<lparr>experience := v\<rparr>"
  by (simp add: level_up_def modify_health_def get_stats_def Let_def)

lemma level_funpow: "level ((level_up ^^ n) p) = level p + int n"
  by (induction n) (simp_all add: level_level_up)

lemma experience_funpow: "experience ((level_up ^^ n) p) = experience p"
  by (induction n) (simp_all add: experience_level_up)

lemma funpow_experience_update:
  "(level_up ^^ n) (p\<lparr>experience := v\<rparr>) = ((level_up ^^ n) p)\<lparr>experience := v\<rparr>"
  by (induction n) (simp_all add: level_up_experience_update)

text \<open>
  After \<^verbatim>\<open>gain_experience\<close> the level is the larger of the level before and the computed
  cube root of the new total: the loop only ever levels up.
\<close>

lemma gain_experience_level:
  assumes "0 \<le> experience p + x"
  shows "\<exists>p'. gain_experience env x p = Inr p'
           \<and> experience p' = experience p + x
           \<and> level p' = max (level p) (cube_root env (experience p + x))"
  using assms by (auto simp: gain_experience_def Let_def level_funpow experience_funpow)

lemma gain_experience_eq:
  "0 \<le> experience p + x \<Longrightarrow>
   gain_experience env x p =
     Inr ((level_up ^^ nat (cube_root env (experience p + x) - level p))
            (p\<lparr>experience := experience p + x\<rparr>))"
  by (simp add: gain_experience_def Let_def)

text \<open>
  Two gains in a row leave the pokemon in the very state one gain of their sum leaves
  it in (level, stats and health alike), when the second is not negative and the computed
  cube root does not decrease from the first total to the second.
\<close>

lemma gain_experience_split:
  assumes "0 \<le> experience p + a" and "0 \<le> b"
    and "cube_root env (experience p + a) \<le> cube_root env (experience p + a + b)"
  shows "(case gain_experience env a p of Inl e \<Rightarrow> Inl e | Inr p1 \<Rightarrow> gain_experience env b p1)
         = gain_experience env (a + b) p"
proof -
  define e where "e = experience p"
  define c1 where "c1 = cube_root env (e + a)"
  define c2 where "c2 = cube_root env (e + a + b)"
  define k1 where "k1 = nat (c1 - level p)"
  define p1 where "p1 = (level_up ^^ k1) (p\<lparr>experience := e + a\<rparr>)"
  define q where "q = p\<lparr>experience := e + a + b\<rparr>"
  have g1: "gain_experience env a p = Inr p1"
    using assms(1) by (simp add: gain_experience_eq p1_def k1_def c1_def e_def)
  have e1: "experience p1 = e + a" by (simp add: p1_def experience_funpow)
  have l1: "level p1 = level p + int k1" by (simp add: p1_def level_funpow)
  have u: "p1\<lparr>experience := e + a + b\<rparr> = (level_up ^^ k1) q"
    by (simp add: p1_def q_def funpow_experience_update)
  have "0 \<le> experience p1 + b" using assms(1,2) e1 e_def by simp
  then have "gain_experience env b p1 =
      Inr ((level_up ^^ nat (cube_root env (experience p1 + b) - level p1))
             (p1\<lparr>experience := experience p1 + b\<rparr>))"
    by (rule gain_experience_eq)
  then have g2: "gain_experience env b p1 = Inr ((level_up ^^ nat (c2 - level p1)) ((level_up ^^ k1) q))"
    by (simp only: e1 u c2_def)
  have k: "nat (c2 - level p1) + k1 = nat (c2 - level p)"
    using assms(3) l1 by (auto simp: k1_def c1_def c2_def e_def)
  have "(level_up ^^ nat (c2 - level p1)) ((level_up ^^ k1) q) = (level_up ^^ nat (c2 - level p)) q"
    using k by (metis funpow_add comp_apply)
  moreover have "gain_experience env (a + b) p = Inr ((level_up ^^ nat (c2 - level p)) q)"
    using assms(1,2) by (simp add: gain_experience_eq q_def c2_def e_def add.assoc)
  ultimately show ?thesis using g1 g2 by simp
qed

section \<open>Submitting actions and using pokeballs\<close>

lemma get_trainer_update_trainer:
  "get_trainer (update_trainer s f b) s' = (if s' = s then f (get_trainer b s) else get_trainer b s')"
  by (auto simp: get_trainer_def update_trainer_def)

lemma update_trainer_fields:
  "trainer_battle (update_trainer s f b) = trainer_battle b"
  "finished_early (update_trainer s f b) = finished_early b"
  "turn (update_trainer s f b) = turn b"
  "action_queue (update_trainer s f b) = action_queue b"
  "objects (update_trainer s f b) = objects b"
  by (simp_all add: update_trainer_def)

lemma use_item_fields:
  "pokemon (use_item item t) = pokemon t"
  "selected_pokemon (use_item item t) = selected_pokemon t"
  "trainer_name (use_item item t) = trainer_name t"
  by (simp_all add: use_item_def split: option.splits)

lemma map_of_use_item:
  "map_of (inventory t) item = Some c \<Longrightarrow>
   map_of (inventory (use_item item t)) item = (if c = 1 then None else Some (c - 1))"
  by (simp add: use_item_def update_conv' delete_conv')

lemma attempt_end_early_fields:
  "finished_early (attempt_end_early b) = (finished_early b \<or> \<not> trainer_battle b)"
  "get_trainer (attempt_end_early b) s = get_trainer b s"
  "objects (attempt_end_early b) = objects b"
  "turn (attempt_end_early b) = turn b"
  "action_queue (attempt_end_early b) = action_queue b"
  "trainer_battle (attempt_end_early b) = trainer_battle b"
  by (simp_all add: attempt_end_early_def get_trainer_def)

lemma add_pokemon_fields:
  "inventory (add_pokemon r t) = inventory t"
  "pokemon (add_pokemon r t) = pokemon t @ [r]"
  by (simp_all add: add_pokemon_def Let_def)

text \<open>
  Claim C3. \<^verbatim>\<open>queue_action\<close> returns the battle unchanged when the side has an entry
  queued or the battle is ready (the validity is then not even evaluated), and when
  \<^verbatim>\<open>is_valid\<close> is false; when none of the three holds it appends the pair of the action and
  the side to the queue and changes nothing else. An exception of \<^verbatim>\<open>is_valid\<close> (a trainer
  without a current pokemon) propagates.
\<close>

theorem queue_action_cases:
  "(trainer_has_action_queued b is_player \<or> is_ready b \<longrightarrow> queue_action action is_player b = Inr b)
   \<and> (is_valid action b is_player = Inr False \<longrightarrow> queue_action action is_player b = Inr b)
   \<and> (\<not> trainer_has_action_queued b is_player \<and> \<not> is_ready b
        \<and> is_valid action b is_player = Inr True \<longrightarrow>
      queue_action action is_player b
        = Inr (b\<lparr>action_queue := action_queue b @ [(action, is_player)]\<rparr>))
   \<and> (\<not> trainer_has_action_queued b is_player \<and> \<not> is_ready b
        \<and> is_valid action b is_player = Inl e \<longrightarrow>
      queue_action action is_player b = Inl e)"
  by (simp add: queue_action_def)

text \<open>
  Claim C7. In a trainer battle, applying a pokeball calls \<^verbatim>\<open>use_item\<close> on the acting
  trainer and returns the one message \<^verbatim>\<open>POKEBALL_INVALID_BATTLE_TYPE\<close>: the result is the
  same whether \<^verbatim>\<open>did_succeed\<close> would return true or false, both rosters and the
  \<open>finished_early\<close> flag are as before, and a ball held with count \<open>c\<close> is held with
  \<open>c - 1\<close> afterwards (removed when that is 0).
\<close>

theorem pokeball_in_trainer_battle:
  assumes "trainer_battle b"
  shows "apply_action env (ItemAction (Pokeball i n chance)) b is_player
           = Inr (update_trainer is_player (use_item (Pokeball i n chance)) b,
                  [POKEBALL_INVALID_BATTLE_TYPE])
       \<and> apply_action (env\<lparr>succeeded := True\<rparr>) (ItemAction (Pokeball i n chance)) b is_player
           = apply_action (env\<lparr>succeeded := False\<rparr>) (ItemAction (Pokeball i n chance)) b is_player
       \<and> pokemon (player (update_trainer is_player (use_item (Pokeball i n chance)) b))
           = pokemon (player b)
       \<and> pokemon (enemy (update_trainer is_player (use_item (Pokeball i n chance)) b))
           = pokemon (enemy b)
       \<and> finished_early (update_trainer is_player (use_item (Pokeball i n chance)) b)
           = finished_early b
       \<and> (\<forall>c. map_of (inventory (get_trainer b is_player)) (Pokeball i n chance) = Some c \<longrightarrow>
            map_of (inventory (get_trainer
                (update_trainer is_player (use_item (Pokeball i n chance)) b) is_player))
              (Pokeball i n chance)
            = (if c = 1 then None else Some (c - 1)))"
proof -
  have a: "apply_action env' (ItemAction (Pokeball i n chance)) b is_player
           = Inr (update_trainer is_player (use_item (Pokeball i n chance)) b,
                  [POKEBALL_INVALID_BATTLE_TYPE])" for env'
    using assms
    by (simp add: Pokeball_apply_def Let_def is_trainer_battle_def update_trainer_fields)
  have r: "pokemon (player (update_trainer is_player (use_item (Pokeball i n chance)) b))
           = pokemon (player b)"
    "pokemon (enemy (update_trainer is_player (use_item (Pokeball i n chance)) b))
           = pokemon (enemy b)"
    by (simp_all add: update_trainer_def use_item_fields)
  show ?thesis
    using a r by (simp add: update_trainer_fields get_trainer_update_trainer map_of_use_item)
qed

text \<open>
  Claim C5, as amended. In a battle that is not a trainer battle, when the capture roll
  succeeds the battle ends early whether or not the pokemon is added. The opposing
  current pokemon is added to the acting trainer's roster exactly when
  \<^verbatim>\<open>can_add_pokemon\<close> holds, that is when it is not in the roster already and the roster has
  fewer than six pokemon, with the caught message; otherwise the roster is unchanged and
  the message is the full-team one. The inventory is the one \<^verbatim>\<open>use_item\<close> leaves.
\<close>

theorem pokeball_capture_in_wild_battle:
  assumes "\<not> trainer_battle b" and "succeeded env"
    and "get_current_pokemon (get_trainer b (\<not> is_player)) = Inr ep"
  shows "\<exists>b'. apply_action env (ItemAction (Pokeball i n chance)) b is_player
            = Inr (b', [if can_add_pokemon ep (get_trainer b is_player)
                        then POKEBALL_SUCCESSFUL_CATCH (pokemon_name (objects b ep))
                        else POKEBALL_FULL_TEAM (pokemon_name (objects b ep))])
          \<and> finished_early b'
          \<and> pokemon (get_trainer b' is_player)
              = (if can_add_pokemon ep (get_trainer b is_player)
                 then pokemon (get_trainer b is_player) @ [ep]
                 else pokemon (get_trainer b is_player))
          \<and> (can_add_pokemon ep (get_trainer b is_player) \<longleftrightarrow>
               ep \<notin> set (pokemon (get_trainer b is_player))
               \<and> length (pokemon (get_trainer b is_player)) < 6)
          \<and> inventory (get_trainer b' is_player)
              = inventory (use_item (Pokeball i n chance) (get_trainer b is_player))
          \<and> objects b' = objects b"
proof -
  let ?ball = "Pokeball i n chance"
  let ?b1 = "update_trainer is_player (use_item ?ball) b"
  have c: "can_add_pokemon ep (get_trainer ?b1 is_player) = can_add_pokemon ep (get_trainer b is_player)"
    by (simp add: get_trainer_update_trainer can_add_pokemon_def use_item_fields)
  have e: "get_current_pokemon (get_trainer ?b1 (\<not> is_player)) = Inr ep"
    using assms(3) by (simp add: get_trainer_update_trainer)
  show ?thesis
  proof (cases "can_add_pokemon ep (get_trainer b is_player)")
    case True
    then have "apply_action env (ItemAction ?ball) b is_player
        = Inr (attempt_end_early (update_trainer is_player (add_pokemon ep) ?b1),
               [POKEBALL_SUCCESSFUL_CATCH (pokemon_name (objects b ep))])"
      using assms(1,2) c e
      by (simp add: Pokeball_apply_def Let_def is_trainer_battle_def update_trainer_fields
          did_succeed_def)
    then show ?thesis
      using True assms(1)
      by (auto simp: attempt_end_early_fields update_trainer_fields get_trainer_update_trainer
          add_pokemon_fields use_item_fields can_add_pokemon_def MAXIMUM_POKEMON_ROSTER_def
          split: if_splits)
  next
    case False
    then have "apply_action env (ItemAction ?ball) b is_player
        = Inr (attempt_end_early ?b1, [POKEBALL_FULL_TEAM (pokemon_name (objects b ep))])"
      using assms(1,2) c e
      by (simp add: Pokeball_apply_def Let_def is_trainer_battle_def update_trainer_fields
          did_succeed_def)
    then show ?thesis
      using False assms(1)
      by (auto simp: attempt_end_early_fields update_trainer_fields get_trainer_update_trainer
          use_item_fields can_add_pokemon_def MAXIMUM_POKEMON_ROSTER_def
          split: if_splits)
  qed
qed

lemma sort_actions_only_queue:
  "(sort_actions b)\<lparr>action_queue := q\<rparr> = b\<lparr>action_queue := q\<rparr>"
  by (simp add: sort_actions_def)

lemma sort_actions_empty:
  "is_action_queue_empty b \<Longrightarrow> action_queue (sort_actions b) = []"
  by (simp add: sort_actions_def is_action_queue_empty_def is_action_queue_full_def)

lemma enact_turn_resolve:
  assumes "action_queue (sort_actions b) = (a, s) # rest"
  shows "enact_turn env b = resolve env a s (b\<lparr>action_queue := rest\<rparr>)"
proof -
  have "\<not> is_action_queue_empty b"
    using assms sort_actions_empty [of b] by auto
  then show ?thesis
    using assms by (simp add: enact_turn_def sort_actions_only_queue)
qed

lemma update_pokemon_fields:
  "turn (update_pokemon r f b) = turn b"
  "action_queue (update_pokemon r f b) = action_queue b"
  "player (update_pokemon r f b) = player b"
  "enemy (update_pokemon r f b) = enemy b"
  "trainer_battle (update_pokemon r f b) = trainer_battle b"
  "finished_early (update_pokemon r f b) = finished_early b"
  "get_trainer (update_pokemon r f b) s = get_trainer b s"
  by (simp_all add: update_pokemon_def get_trainer_def)

lemma apply_ally_effects_keeps:
  "apply_ally_effects m s b = Inr (b1, msgs) \<Longrightarrow>
   turn b1 = turn b \<and> action_queue b1 = action_queue b"
  by (cases m) (auto simp: update_pokemon_fields split: sum.splits)

lemma apply_enemy_effects_keeps:
  "apply_enemy_effects env m s b = Inr (b1, msgs) \<Longrightarrow>
   turn b1 = turn b \<and> action_queue b1 = action_queue b"
  by (cases m) (auto simp: update_pokemon_fields Let_def split: sum.splits if_splits)

lemma Move_apply_keeps:
  assumes "Move_apply env m b s = Inr (b1, msgs)"
  shows "turn b1 = turn b \<and> action_queue b1 = action_queue b"
proof -
  from assms obtain r ba la bb lb where
    a: "apply_ally_effects m s b = Inr (ba, la)" and
    e: "apply_enemy_effects env m s ba = Inr (bb, lb)" and
    b1: "b1 = update_pokemon r (reduce_move_count m) bb"
    by (auto simp: Move_apply_def split: sum.splits)
  show ?thesis
    using apply_ally_effects_keeps [OF a] apply_enemy_effects_keeps [OF e] b1
    by (simp add: update_pokemon_fields)
qed

lemma Pokeball_apply_keeps:
  "Pokeball_apply env item c b s = Inr (b1, msgs) \<Longrightarrow>
   turn b1 = turn b \<and> action_queue b1 = action_queue b"
  by (auto simp: Pokeball_apply_def Let_def update_trainer_fields attempt_end_early_fields
      split: sum.splits if_splits)

lemma Food_apply_keeps:
  "Food_apply item h b s = Inr (b1, msgs) \<Longrightarrow>
   turn b1 = turn b \<and> action_queue b1 = action_queue b"
  by (auto simp: Food_apply_def update_trainer_fields update_pokemon_fields split: sum.splits)

lemma SwitchPokemon_apply_keeps:
  "SwitchPokemon_apply i b s = Inr (b1, msgs) \<Longrightarrow>
   turn b1 = turn b \<and> action_queue b1 = action_queue b"
  by (auto simp: SwitchPokemon_apply_def Let_def update_trainer_fields split: sum.splits)

lemma apply_action_keeps:
  assumes "apply_action env a b s = Inr (b1, msgs)"
  shows "turn b1 = turn b \<and> action_queue b1 = action_queue b"
proof (cases a)
  case BaseAction
  then show ?thesis using assms by simp
next
  case Flee
  then show ?thesis using assms by (auto simp: Let_def attempt_end_early_fields)
next
  case (SwitchPokemon i)
  then show ?thesis using assms SwitchPokemon_apply_keeps by simp
next
  case (ItemAction item)
  then show ?thesis using assms Pokeball_apply_keeps Food_apply_keeps
    by (cases item) auto
next
  case (MoveAction m)
  then show ?thesis using assms Move_apply_keeps by simp
qed

lemma post_round_eq:
  assumes "get_current_pokemon (player b) = Inr pr" and "get_current_pokemon (enemy b) = Inr er"
  shows "post_round b
          = Inr (update_pokemon er post_round_actions (update_pokemon pr post_round_actions b))"
  using assms by (simp add: post_round_def Let_def update_pokemon_fields)

lemma post_round_keeps:
  "post_round b = Inr b1 \<Longrightarrow> action_queue b1 = action_queue b"
  by (auto simp: post_round_def Let_def update_pokemon_fields split: sum.splits)

lemma stat_modifiers_post_round_actions:
  "stat_modifiers (post_round_actions p)
     = map (\<lambda>mr. (fst mr, snd mr - 1)) (filter (\<lambda>mr. 1 < snd mr) (stat_modifiers p))"
  by (simp add: post_round_actions_def modify_health_def)

lemma resolve_keeps_queue:
  assumes "resolve env a s b = Inr (b', r)"
  shows "action_queue b' = action_queue b"
proof (cases "is_valid a b s")
  case (Inl e)
  then show ?thesis using assms by (simp add: resolve_def)
next
  case (Inr v)
  show ?thesis
  proof (cases v)
    case False
    then show ?thesis using assms Inr by (simp add: resolve_def)
  next
    case True
    then obtain b1 msgs where ap: "apply_action env a b s = Inr (b1, msgs)"
      using assms Inr by (auto simp: resolve_def split: sum.splits)
    have q1: "action_queue b1 = action_queue b" using apply_action_keeps [OF ap] by simp
    show ?thesis
      using assms Inr True ap q1 post_round_keeps
      by (auto simp: resolve_def Let_def update_turn_def split: sum.splits if_splits)
  qed
qed

text \<open>
  Claim C1, as amended. When the entry at the head of the sorted queue is found invalid,
  \<^verbatim>\<open>enact_turn\<close> returns \<^verbatim>\<open>None\<close> and only removes that entry: the turn is not advanced,
  no upkeep runs, and nothing else of the battle changes.
\<close>

theorem stale_action_discarded:
  assumes "action_queue (sort_actions b) = (a, s) # rest"
    and "is_valid a (b\<lparr>action_queue := rest\<rparr>) s = Inr False"
  shows "enact_turn env b = Inr (b\<lparr>action_queue := rest\<rparr>, None)"
  using assms by (simp add: enact_turn_resolve resolve_def)

text \<open>
  Claim C2. Let the head of the sorted queue be valid and its \<^verbatim>\<open>apply\<close> return. If no side
  had acted this round, \<^verbatim>\<open>enact_turn\<close> sets the turn to the opposite side and runs no
  upkeep: the pokemon are as \<^verbatim>\<open>apply\<close> left them. If one side had acted, it resets the
  turn to \<^verbatim>\<open>None\<close> and runs \<^verbatim>\<open>post_round_actions\<close> once on the player's current pokemon
  and then once on the enemy's. \<^verbatim>\<open>post_round_actions\<close> keeps the modifiers with more than
  one round left, each with one round less, in their order. When the two current pokemon
  are different objects each has had exactly one upkeep.
\<close>

theorem upkeep_once_per_round:
  assumes "action_queue (sort_actions b) = (a, s) # rest"
    and "is_valid a (b\<lparr>action_queue := rest\<rparr>) s = Inr True"
    and "apply_action env a (b\<lparr>action_queue := rest\<rparr>) s = Inr (b1, msgs)"
  shows "(turn b = None \<longrightarrow> enact_turn env b = Inr (b1\<lparr>turn := Some (\<not> s)\<rparr>, Some msgs))
       \<and> (turn b \<noteq> None \<longrightarrow>
            (\<forall>pr er. get_current_pokemon (player b1) = Inr pr
                    \<and> get_current_pokemon (enemy b1) = Inr er \<longrightarrow>
               enact_turn env b
                 = Inr (update_pokemon er post_round_actions
                          (update_pokemon pr post_round_actions (b1\<lparr>turn := None\<rparr>)),
                        Some msgs)))
       \<and> (\<forall>p. stat_modifiers (post_round_actions p)
                 = map (\<lambda>mr. (fst mr, snd mr - 1)) (filter (\<lambda>mr. 1 < snd mr) (stat_modifiers p)))
       \<and> (\<forall>pr er b2. pr \<noteq> er \<longrightarrow>
             objects (update_pokemon er post_round_actions
                        (update_pokemon pr post_round_actions b2)) pr
               = post_round_actions (objects b2 pr)
           \<and> objects (update_pokemon er post_round_actions
                        (update_pokemon pr post_round_actions b2)) er
               = post_round_actions (objects b2 er))"
proof -
  have t: "turn b1 = turn b" using apply_action_keeps [OF assms(3)] by simp
  have e: "enact_turn env b = resolve env a s (b\<lparr>action_queue := rest\<rparr>)"
    using assms(1) by (rule enact_turn_resolve)
  have first: "enact_turn env b = Inr (b1\<lparr>turn := Some (\<not> s)\<rparr>, Some msgs)" if "turn b = None"
    using that t assms(2,3) unfolding e by (simp add: resolve_def update_turn_def)
  have second: "enact_turn env b
        = Inr (update_pokemon er post_round_actions
                 (update_pokemon pr post_round_actions (b1\<lparr>turn := None\<rparr>)), Some msgs)"
    if nz: "turn b \<noteq> None" and pp: "get_current_pokemon (player b1) = Inr pr"
      and ee: "get_current_pokemon (enemy b1) = Inr er" for pr er
  proof -
    have "post_round (b1\<lparr>turn := None\<rparr>)
        = Inr (update_pokemon er post_round_actions
                 (update_pokemon pr post_round_actions (b1\<lparr>turn := None\<rparr>)))"
      using pp ee by (simp add: post_round_eq)
    moreover obtain y where "turn b1 = Some y" using nz t by auto
    ultimately show ?thesis
      using assms(2,3) unfolding e by (simp add: resolve_def update_turn_def)
  qed
  have apart: "objects (update_pokemon er post_round_actions
                        (update_pokemon pr post_round_actions b2)) pr
               = post_round_actions (objects b2 pr)
           \<and> objects (update_pokemon er post_round_actions
                        (update_pokemon pr post_round_actions b2)) er
               = post_round_actions (objects b2 er)" if "pr \<noteq> er" for pr er b2
    using that by (simp add: update_pokemon_def)
  show ?thesis using first second stat_modifiers_post_round_actions apart by blast
qed

text \<open>
  Claim C6. With two entries queued, \<^verbatim>\<open>enact_turn\<close> resolves the entry of lower priority
  and leaves the other queued, whatever the order of submission; with equal priorities
  it resolves the one submitted first. Resolving an entry does not change the queue, so
  the next call resolves the entry that was left.
\<close>

theorem lower_priority_first:
  assumes "action_queue b = [(a1, s1), (a2, s2)]"
  shows "enact_turn env b =
           (if get_priority a1 \<le> get_priority a2
            then resolve env a1 s1 (b\<lparr>action_queue := [(a2, s2)]\<rparr>)
            else resolve env a2 s2 (b\<lparr>action_queue := [(a1, s1)]\<rparr>))
       \<and> (\<forall>a s b0 b' r. resolve env a s b0 = Inr (b', r) \<longrightarrow> action_queue b' = action_queue b0)
       \<and> (\<forall>a s b0. action_queue b0 = [(a, s)] \<longrightarrow>
             enact_turn env b0 = resolve env a s (b0\<lparr>action_queue := []\<rparr>))"
proof -
  have "action_queue (sort_actions b) =
      (if get_priority a1 \<le> get_priority a2 then [(a1, s1), (a2, s2)] else [(a2, s2), (a1, s1)])"
    using assms by (simp add: sort_actions_def is_action_queue_full_def)
  then have 1: "enact_turn env b =
           (if get_priority a1 \<le> get_priority a2
            then resolve env a1 s1 (b\<lparr>action_queue := [(a2, s2)]\<rparr>)
            else resolve env a2 s2 (b\<lparr>action_queue := [(a1, s1)]\<rparr>))"
    by (simp add: enact_turn_resolve)
  have 3: "enact_turn env b0 = resolve env a s (b0\<lparr>action_queue := []\<rparr>)"
    if "action_queue b0 = [(a, s)]" for a s b0
  proof -
    have "action_queue (sort_actions b0) = (a, s) # []"
      using that by (simp add: sort_actions_def is_action_queue_full_def)
    then show ?thesis by (rule enact_turn_resolve)
  qed
  show ?thesis using 1 3 resolve_keeps_queue by blast
qed

section \<open>The examples evaluated\<close>

lemma pikachu_eq:
  "pikachu = \<lparr>pokemon_name = ''Pikachu'', element_type = ''electric'', stats = (1, 100, 200, 200),
      stat_modifiers = [], health = 100, level = 5, experience = 125,
      moves = [(tackle, 15), (toxic, 10)]\<rparr>"
  by (simp add: pikachu_def Pokemon_init_def can_learn_move_def learn_move_def
      MAXIMUM_MOVE_SLOTS_def get_max_health_def tackle_def toxic_def)

lemma geodude_eq:
  "geodude = \<lparr>pokemon_name = ''Geodude'', element_type = ''rock'', stats = (1, 100, 200, 200),
      stat_modifiers = [], health = 100, level = 5, experience = 125,
      moves = [(tackle, 15), (toxic, 10)]\<rparr>"
  by (simp add: geodude_def Pokemon_init_def can_learn_move_def learn_move_def
      MAXIMUM_MOVE_SLOTS_def get_max_health_def tackle_def toxic_def)

lemma eevee_eq:
  "eevee = \<lparr>pokemon_name = ''Eevee'', element_type = ''normal'', stats = (1, 100, 100, 100),
      stat_modifiers = [], health = 100, level = 3, experience = 27, moves = []\<rparr>"
  by (simp add: eevee_def Pokemon_init_def get_max_health_def)

lemma ash_eq:
  "ash = \<lparr>trainer_name = ''Ash'', selected_pokemon = Some 0, pokemon = [0],
           inventory = [(master_ball, 1)]\<rparr>"
  by (simp add: ash_def add_item_def add_pokemon_def Trainer_init_def)

lemma brock_eq:
  "brock = \<lparr>trainer_name = ''Brock'', selected_pokemon = Some 0, pokemon = [1], inventory = []\<rparr>"
  by (simp add: brock_def add_pokemon_def Trainer_init_def)

lemma current_ash: "get_current_pokemon ash = Inr 0"
  by (simp add: ash_eq get_current_pokemon_def py_index_def)

lemma current_brock: "get_current_pokemon brock = Inr 1"
  by (simp add: brock_eq get_current_pokemon_def py_index_def)

lemma duel_not_over: "\<not> is_over duel"
  by (simp add: duel_def Battle_init_def is_over_def all_pokemon_fainted_def ash_eq brock_eq
      example_objects_def has_fainted_def pikachu_eq geodude_eq)

text \<open>
  An instance: a flee is queued for the player, and a second one is declined.
\<close>

theorem queue_action_cases_witness:
  "\<not> trainer_has_action_queued duel True \<and> \<not> is_ready duel
   \<and> is_valid Flee duel True = Inr True
   \<and> queue_action Flee True duel = Inr (duel\<lparr>action_queue := [(Flee, True)]\<rparr>)
   \<and> trainer_has_action_queued (duel\<lparr>action_queue := [(Flee, True)]\<rparr>) True
   \<and> queue_action Flee True (duel\<lparr>action_queue := [(Flee, True)]\<rparr>)
       = Inr (duel\<lparr>action_queue := [(Flee, True)]\<rparr>)"
proof -
  have q: "action_queue duel = []" "turn duel = None" "player duel = ash"
    "objects duel = example_objects"
    by (simp_all add: duel_def Battle_init_def)
  have a: "\<not> trainer_has_action_queued duel True" "\<not> is_ready duel"
    by (simp_all add: q trainer_has_action_queued_def is_ready_def is_action_queue_full_def)
  have v: "is_valid Flee duel True = Inr True"
    using duel_not_over
    by (simp add: q get_trainer_def current_ash Action_is_valid_def get_turn_def has_fainted_def
        example_objects_def pikachu_eq)
  have t: "trainer_has_action_queued (duel\<lparr>action_queue := [(Flee, True)]\<rparr>) True"
    by (simp add: trainer_has_action_queued_def)
  show ?thesis
    using queue_action_cases [of duel True Flee] a v t
      queue_action_cases [of "duel\<lparr>action_queue := [(Flee, True)]\<rparr>" True Flee]
    by (simp add: q)
qed

lemma wild_fields:
  "player wild = ash" "enemy wild = add_pokemon 1 (Trainer_init [])" "trainer_battle wild = False"
  "objects wild = example_objects" "finished_early wild = False"
  by (simp_all add: wild_def create_encounter_def Battle_init_def)

lemma duel_fields:
  "player duel = ash" "enemy duel = brock" "trainer_battle duel = True"
  "objects duel = example_objects" "finished_early duel = False" "turn duel = None"
  "action_queue duel = []"
  by (simp_all add: duel_def Battle_init_def)

text \<open>
  An instance: the last master ball is spent in a duel, whatever the roll.
\<close>

theorem pokeball_in_trainer_battle_witness:
  "trainer_battle duel
   \<and> apply_action example_env (ItemAction master_ball) duel True
       = Inr (duel\<lparr>player := ash\<lparr>inventory := []\<rparr>\<rparr>, [POKEBALL_INVALID_BATTLE_TYPE])
   \<and> apply_action (example_env\<lparr>succeeded := False\<rparr>) (ItemAction master_ball) duel True
       = Inr (duel\<lparr>player := ash\<lparr>inventory := []\<rparr>\<rparr>, [POKEBALL_INVALID_BATTLE_TYPE])"
proof -
  have t: "trainer_battle duel" by (simp add: duel_fields)
  have u: "update_trainer True (use_item (Pokeball 4 ''Master Ball'' 1)) duel
           = duel\<lparr>player := ash\<lparr>inventory := []\<rparr>\<rparr>"
    by (simp add: update_trainer_def duel_fields use_item_def ash_eq master_ball_def)
  show ?thesis
    using pokeball_in_trainer_battle [OF t, of example_env 4 "''Master Ball''" 1 True]
      pokeball_in_trainer_battle [OF t, of "example_env\<lparr>succeeded := False\<rparr>" 4 "''Master Ball''" 1 True]
      t u
    by (simp add: master_ball_def)
qed

text \<open>
  An instance: Ash, with one pokemon, catches the wild geodude.
\<close>

theorem pokeball_capture_witness:
  "\<not> trainer_battle wild \<and> succeeded example_env
   \<and> get_current_pokemon (get_trainer wild False) = Inr 1
   \<and> can_add_pokemon 1 (get_trainer wild True)
   \<and> (\<exists>b'. apply_action example_env (ItemAction master_ball) wild True
              = Inr (b', [''Geodude was caught!''])
            \<and> finished_early b' \<and> pokemon (get_trainer b' True) = [0, 1]
            \<and> inventory (get_trainer b' True) = [])"
proof -
  have a: "\<not> trainer_battle wild" by (simp add: wild_fields)
  have s: "succeeded example_env" by (simp add: example_env_def)
  have c: "get_current_pokemon (get_trainer wild False) = Inr 1"
    by (simp add: get_trainer_def wild_fields get_current_pokemon_def add_pokemon_def
        Trainer_init_def py_index_def)
  have d: "can_add_pokemon 1 (get_trainer wild True)"
    by (simp add: get_trainer_def wild_fields can_add_pokemon_def ash_eq MAXIMUM_POKEMON_ROSTER_def)
  have n: "pokemon_name (objects wild 1) = ''Geodude''"
    by (simp add: wild_fields example_objects_def geodude_eq)
  have i: "inventory (use_item (Pokeball 4 ''Master Ball'' 1) (get_trainer wild True)) = []"
    "pokemon (get_trainer wild True) = [0]"
    by (simp_all add: get_trainer_def wild_fields use_item_def ash_eq master_ball_def)
  show ?thesis
    using pokeball_capture_in_wild_battle [where b = wild and env = example_env
        and is_player = True and ep = 1 and i = 4 and n = "''Master Ball''" and chance = 1]
      a s c d n i
    by (auto simp: master_ball_def POKEBALL_SUCCESSFUL_CATCH_def)
qed

lemma full_ash_eq:
  "full_ash = \<lparr>trainer_name = ''Ash'', selected_pokemon = Some 0, pokemon = [0, 2, 3, 4, 5, 6],
           inventory = [(master_ball, 1)]\<rparr>"
  by (simp add: full_ash_def ash_eq add_pokemon_def)

text \<open>
  Claim C5 as stated fails: with six pokemon in the roster a successful roll produces
  the full-team message, adds nothing, and still ends the battle early.
\<close>

theorem pokeball_full_roster_counterexample:
  "\<not> trainer_battle wild_full \<and> succeeded example_env
   \<and> length (pokemon (get_trainer wild_full True)) = MAXIMUM_POKEMON_ROSTER
   \<and> apply_action example_env (ItemAction master_ball) wild_full True
       = Inr (wild_full\<lparr>player := full_ash\<lparr>inventory := []\<rparr>, finished_early := True\<rparr>,
              [''Geodude was caught, but there was no more room.''])
   \<and> is_over (wild_full\<lparr>player := full_ash\<lparr>inventory := []\<rparr>, finished_early := True\<rparr>)"
  by (simp add: wild_full_def create_encounter_def Battle_init_def master_ball_def
      Pokeball_apply_def Let_def is_trainer_battle_def update_trainer_def get_trainer_def
      full_ash_eq use_item_def get_current_pokemon_def add_pokemon_def Trainer_init_def
      py_index_def did_succeed_def example_env_def can_add_pokemon_def
      MAXIMUM_POKEMON_ROSTER_def attempt_end_early_def POKEBALL_FULL_TEAM_def
      example_objects_def geodude_eq is_over_def)

lemma str_int_4: "str_int 4 = ''4''"
  by code_simp

lemma onix_eq:
  "onix = \<lparr>pokemon_name = ''Onix'', element_type = ''rock'', stats = (1, 100, 200, 200),
      stat_modifiers = [], health = 100, level = 5, experience = 125, moves = [(slam, 20)]\<rparr>"
  by (simp add: onix_def Pokemon_init_def can_learn_move_def learn_move_def
      MAXIMUM_MOVE_SLOTS_def get_max_health_def slam_def)

lemma gary_eq:
  "gary = \<lparr>trainer_name = ''Gary'', selected_pokemon = Some 0, pokemon = [3], inventory = []\<rparr>"
  by (simp add: gary_def add_pokemon_def Trainer_init_def)

lemma ash2_eq:
  "add_pokemon 2 ash = \<lparr>trainer_name = ''Ash'', selected_pokemon = Some 0, pokemon = [0, 2],
           inventory = [(master_ball, 1)]\<rparr>"
  by (simp add: ash_eq add_pokemon_def)

lemma stale_fields:
  "player stale = \<lparr>trainer_name = ''Ash'', selected_pokemon = Some 0, pokemon = [0, 2],
           inventory = [(master_ball, 1)]\<rparr>"
  "enemy stale = gary" "trainer_battle stale = True" "finished_early stale = False"
  "turn stale = Some True" "action_queue stale = [(MoveAction tackle, True)]"
  "objects stale = example_objects
                 (0 := pikachu\<lparr>health := 0\<rparr>,
                  3 := onix\<lparr>stats := (1, 105, 210, 210), health := 105, level := 6,
                             experience := 267, moves := [(slam, 19)]\<rparr>)"
  by (simp_all add: stale_def Battle_init_def ash_eq add_pokemon_def)

lemma knockout_fields:
  "player knockout = \<lparr>trainer_name = ''Ash'', selected_pokemon = Some 0, pokemon = [0, 2],
           inventory = [(master_ball, 1)]\<rparr>"
  "enemy knockout = gary" "trainer_battle knockout = True" "finished_early knockout = False"
  "turn knockout = None"
  "action_queue knockout = [(MoveAction tackle, True), (MoveAction slam, False)]"
  "objects knockout = example_objects"
  by (simp_all add: knockout_def Battle_init_def ash_eq add_pokemon_def)

lemma floor_rat_numeral:
  "\<lfloor>(numeral a :: rat) / numeral b\<rfloor> = numeral a div numeral b"
  using floor_divide_of_int_eq [of "numeral a" "numeral b", where ?'a = rat] by simp

lemma str_int_142: "str_int 142 = ''142''"
  by code_simp

lemma slam_damage:
  "calculate_damage example_env 1000 ''normal'' onix pikachu = Inr 995"
  by (simp add: calculate_damage_def example_env_def onix_eq pikachu_eq get_stats_def
      get_attack_def get_defense_def py_int_def floor_rat_numeral)

lemma pikachu_reward: "experience_on_death (pikachu\<lparr>health := 0\<rparr>) = 142"
  by (simp add: experience_on_death_def pikachu_eq py_int_def floor_rat_numeral)

lemma onix_gain:
  "gain_experience example_env 142 onix
     = Inr (onix\<lparr>stats := (1, 105, 210, 210), health := 105, level := 6, experience := 267\<rparr>)"
  by (simp add: gain_experience_def example_env_def example_cube_root_def onix_eq level_up_def
      Let_def PokemonStats_level_up_def grow_def py_int_def get_max_health_def get_attack_def
      get_defense_def modify_health_def get_stats_def floor_rat_numeral)

lemma stale_sorted: "action_queue (sort_actions stale) = (MoveAction tackle, True) # []"
  by (simp add: sort_actions_def is_action_queue_full_def stale_fields)

lemma stale_invalid:
  "is_valid (MoveAction tackle) (stale\<lparr>action_queue := []\<rparr>) True = Inr False"
  by (simp add: Action_is_valid_def is_over_def get_turn_def stale_fields
      all_pokemon_fainted_def has_fainted_def example_objects_def eevee_eq gary_eq
      get_trainer_def get_current_pokemon_def py_index_def)

text \<open>
  The instance of the battle \<open>stale\<close>.
\<close>

theorem stale_action_discarded_witness:
  "action_queue (sort_actions stale) = [(MoveAction tackle, True)]
   \<and> is_valid (MoveAction tackle) (stale\<lparr>action_queue := []\<rparr>) True = Inr False
   \<and> enact_turn example_env stale = Inr (stale\<lparr>action_queue := []\<rparr>, None)"
  using stale_action_discarded [OF stale_sorted stale_invalid, of example_env]
    stale_sorted stale_invalid
  by simp

lemma knockout_sorted:
  "action_queue (sort_actions knockout) = (MoveAction slam, False) # [(MoveAction tackle, True)]"
  by (simp add: sort_actions_def is_action_queue_full_def knockout_fields tackle_def slam_def
      SPEED_BASED_ACTION_PRIORITY_def)

lemma slam_valid:
  "is_valid (MoveAction slam) (knockout\<lparr>action_queue := [(MoveAction tackle, True)]\<rparr>) False
     = Inr True"
  by (simp add: Action_is_valid_def is_over_def get_turn_def knockout_fields
      all_pokemon_fainted_def has_fainted_def example_objects_def pikachu_eq eevee_eq onix_eq
      gary_eq get_trainer_def get_current_pokemon_def py_index_def get_remaining_move_uses_def)

lemma slam_apply:
  "apply_action example_env (MoveAction slam)
       (knockout\<lparr>action_queue := [(MoveAction tackle, True)]\<rparr>) False
     = Inr (stale\<lparr>turn := None\<rparr>,
            [''Onix used slam.'', ''Pikachu has fainted.'', ''Onix gained 142 exp.''])"
proof -
  let ?b = "knockout\<lparr>action_queue := [(MoveAction tackle, True)]\<rparr>"
  have t: "get_trainer ?b False = gary" "get_trainer ?b True = add_pokemon 2 ash"
    "objects ?b = example_objects"
    by (simp_all add: get_trainer_def knockout_fields ash2_eq)
  have c: "get_current_pokemon gary = Inr 3" "get_current_pokemon (add_pokemon 2 ash) = Inr 0"
    by (simp_all add: gary_eq ash2_eq get_current_pokemon_def py_index_def)
  have o: "example_objects 3 = onix" "example_objects 0 = pikachu"
    by (simp_all add: example_objects_def)
  have h: "modify_health (- 995) pikachu = pikachu\<lparr>health := 0\<rparr>"
    by (simp add: modify_health_def pikachu_eq get_stats_def get_max_health_def)
  have n: "pokemon_name onix = ''Onix''" "pokemon_name pikachu = ''Pikachu''"
    by (simp_all add: onix_eq pikachu_eq)
  have r: "reduce_move_count slam
             (onix\<lparr>stats := (1, 105, 210, 210), health := 105, level := 6, experience := 267\<rparr>)
           = onix\<lparr>stats := (1, 105, 210, 210), health := 105, level := 6, experience := 267,
                   moves := [(slam, 19)]\<rparr>"
    by (simp add: reduce_move_count_def onix_eq)
  have sc: "succeeded example_env" by (simp add: example_env_def)
  have a: "apply_ally_effects slam False ?b = Inr (?b, [])"
    by (simp add: slam_def)
  have mn: "Move_get_name slam = ''slam''" by (simp add: slam_def)
  have e: "apply_enemy_effects example_env slam False ?b
      = Inr (?b\<lparr>objects := example_objects
                 (0 := pikachu\<lparr>health := 0\<rparr>,
                  3 := onix\<lparr>stats := (1, 105, 210, 210), health := 105, level := 6,
                             experience := 267\<rparr>)\<rparr>,
             [''Pikachu has fainted.'', ''Onix gained 142 exp.''])"
    by (simp add: slam_def t c o did_hit_def did_succeed_def sc slam_damage update_pokemon_def
        h has_fainted_def pikachu_reward onix_gain n str_int_142 Let_def)
  have s: "stale\<lparr>turn := None\<rparr>
      = ?b\<lparr>objects := example_objects
                 (0 := pikachu\<lparr>health := 0\<rparr>,
                  3 := onix\<lparr>stats := (1, 105, 210, 210), health := 105, level := 6,
                             experience := 267, moves := [(slam, 19)]\<rparr>)\<rparr>"
    by (simp add: stale_def knockout_def Battle_init_def)
  show ?thesis
    unfolding s by (simp add: Move_apply_def t c o a e n r mn update_pokemon_def)
qed

lemma knockout_step:
  "enact_turn example_env knockout
     = Inr (stale, Some [''Onix used slam.'', ''Pikachu has fainted.'', ''Onix gained 142 exp.''])"
proof -
  have "stale\<lparr>turn := None, turn := Some True\<rparr> = stale"
    by (simp add: stale_def)
  moreover have "enact_turn example_env knockout
      = resolve example_env (MoveAction slam) False
          (knockout\<lparr>action_queue := [(MoveAction tackle, True)]\<rparr>)"
    by (rule enact_turn_resolve [OF knockout_sorted])
  ultimately show ?thesis
    by (simp add: resolve_def slam_valid slam_apply update_turn_def stale_fields
        del: is_valid.simps apply_action.simps)
qed

text \<open>
  Claim C1 as stated fails. Both actions of \<open>knockout\<close> are valid when queued. The first
  \<^verbatim>\<open>enact_turn\<close> resolves the slam, the pikachu faints and the player is awaited. The second
  finds the player's tackle invalid and drops it, and the player is still awaited, while
  \<^verbatim>\<open>_update_turn\<close> (which a valid action runs) would have reset the turn to \<^verbatim>\<open>None\<close>.
\<close>

theorem stale_action_keeps_turn_counterexample:
  "is_valid (MoveAction tackle) knockout True = Inr True
   \<and> is_valid (MoveAction slam) knockout False = Inr True
   \<and> enact_turn example_env knockout
       = Inr (stale, Some [''Onix used slam.'', ''Pikachu has fainted.'', ''Onix gained 142 exp.''])
   \<and> action_queue stale = [(MoveAction tackle, True)]
   \<and> turn stale = Some True
   \<and> is_valid (MoveAction tackle) (stale\<lparr>action_queue := []\<rparr>) True = Inr False
   \<and> enact_turn example_env stale = Inr (stale\<lparr>action_queue := []\<rparr>, None)
   \<and> turn (stale\<lparr>action_queue := []\<rparr>) = Some True
   \<and> turn (update_turn True (stale\<lparr>action_queue := []\<rparr>)) = None"
proof -
  have v: "is_valid (MoveAction tackle) knockout True = Inr True"
    "is_valid (MoveAction slam) knockout False = Inr True"
    by (simp_all add: Action_is_valid_def is_over_def get_turn_def knockout_fields
      all_pokemon_fainted_def has_fainted_def example_objects_def pikachu_eq eevee_eq onix_eq
      gary_eq get_trainer_def get_current_pokemon_def py_index_def get_remaining_move_uses_def)
  have "enact_turn example_env stale = Inr (stale\<lparr>action_queue := []\<rparr>, None)"
    using stale_invalid
    by (simp add: enact_turn_def is_action_queue_empty_def stale_fields stale_sorted
        sort_actions_only_queue resolve_def)
  then show ?thesis
    using stale_invalid knockout_step v by (simp add: stale_fields update_turn_def)
qed

lemma early_fields:
  "player early = ash" "enemy early = brock" "trainer_battle early = True"
  "finished_early early = False" "turn early = None" "objects early = example_objects"
  "action_queue early = [(MoveAction tackle, True), (MoveAction toxic, False)]"
  by (simp_all add: early_def duel_fields)

lemma late_fields:
  "player late = ash" "enemy late = brock" "trainer_battle late = True"
  "finished_early late = False" "turn late = Some False" "objects late = example_objects"
  "action_queue late = [(MoveAction toxic, False)]"
  by (simp_all add: late_def duel_fields)

lemma early_sorted:
  "action_queue (sort_actions early) = (MoveAction toxic, False) # [(MoveAction tackle, True)]"
  by (simp add: sort_actions_def is_action_queue_full_def early_fields tackle_def toxic_def
      SPEED_BASED_ACTION_PRIORITY_def)

lemma late_sorted: "action_queue (sort_actions late) = (MoveAction toxic, False) # []"
  by (simp add: sort_actions_def is_action_queue_full_def late_fields)

lemma toxic_valid:
  assumes "player b = ash" "enemy b = brock" "finished_early b = False"
    "objects b = example_objects" "turn b = None \<or> turn b = Some False"
  shows "is_valid (MoveAction toxic) b False = Inr True"
  using assms
  by (auto simp: Action_is_valid_def is_over_def get_turn_def all_pokemon_fainted_def
      has_fainted_def example_objects_def pikachu_eq geodude_eq ash_eq brock_eq get_trainer_def
      get_current_pokemon_def py_index_def get_remaining_move_uses_def toxic_def tackle_def)

lemma toxic_apply:
  assumes "player b = ash" "enemy b = brock" "objects b = example_objects"
  shows "apply_action env (MoveAction toxic) b False
    = Inr (update_pokemon 1 (reduce_move_count toxic)
             (update_pokemon 0 (add_stat_modifier (0, - 50, 0, - 50) 4) b),
           [''Geodude used toxic.'', ''Pikachu was debuffed for 4 turns.''])"
  using assms
  by (simp add: Move_apply_def toxic_def get_trainer_def current_ash current_brock
      update_pokemon_fields example_objects_def pikachu_eq geodude_eq str_int_4)

lemma debuffed_modifiers:
  "stat_modifiers (add_stat_modifier (0, - 50, 0, - 50) 4 pikachu) = [((0, - 50, 0, - 50), 4)]"
  by (simp add: add_stat_modifier_def modify_health_def pikachu_eq)

text \<open>
  Two instances: the first resolution of a round leaves the fresh debuff at 4 rounds;
  a second resolution ticks it to 3.
\<close>

theorem upkeep_once_per_round_witness:
  "action_queue (sort_actions early) = [(MoveAction toxic, False), (MoveAction tackle, True)]
   \<and> turn early = None
   \<and> is_valid (MoveAction toxic) (early\<lparr>action_queue := [(MoveAction tackle, True)]\<rparr>) False
       = Inr True
   \<and> enact_turn example_env early
       = Inr ((update_pokemon 1 (reduce_move_count toxic)
                (update_pokemon 0 (add_stat_modifier (0, - 50, 0, - 50) 4)
                   (early\<lparr>action_queue := [(MoveAction tackle, True)]\<rparr>)))
              \<lparr>turn := Some True\<rparr>,
              Some [''Geodude used toxic.'', ''Pikachu was debuffed for 4 turns.''])
   \<and> stat_modifiers (objects ((update_pokemon 1 (reduce_move_count toxic)
                (update_pokemon 0 (add_stat_modifier (0, - 50, 0, - 50) 4)
                   (early\<lparr>action_queue := [(MoveAction tackle, True)]\<rparr>)))
              \<lparr>turn := Some True\<rparr>) 0) = [((0, - 50, 0, - 50), 4)]
   \<and> action_queue (sort_actions late) = [(MoveAction toxic, False)]
   \<and> turn late = Some False
   \<and> is_valid (MoveAction toxic) (late\<lparr>action_queue := []\<rparr>) False = Inr True
   \<and> enact_turn example_env late
       = Inr (update_pokemon 1 post_round_actions
               (update_pokemon 0 post_round_actions
                 ((update_pokemon 1 (reduce_move_count toxic)
                    (update_pokemon 0 (add_stat_modifier (0, - 50, 0, - 50) 4)
                       (late\<lparr>action_queue := []\<rparr>)))
                  \<lparr>turn := None\<rparr>)),
              Some [''Geodude used toxic.'', ''Pikachu was debuffed for 4 turns.''])
   \<and> stat_modifiers (objects (update_pokemon 1 post_round_actions
               (update_pokemon 0 post_round_actions
                 ((update_pokemon 1 (reduce_move_count toxic)
                    (update_pokemon 0 (add_stat_modifier (0, - 50, 0, - 50) 4)
                       (late\<lparr>action_queue := []\<rparr>)))
                  \<lparr>turn := None\<rparr>))) 0) = [((0, - 50, 0, - 50), 3)]"
proof -
  let ?e0 = "early\<lparr>action_queue := [(MoveAction tackle, True)]\<rparr>"
  let ?l0 = "late\<lparr>action_queue := []\<rparr>"
  let ?msgs = "[''Geodude used toxic.'', ''Pikachu was debuffed for 4 turns.'']"
  have ev: "is_valid (MoveAction toxic) ?e0 False = Inr True"
    by (rule toxic_valid) (simp_all add: early_fields)
  have ea: "apply_action example_env (MoveAction toxic) ?e0 False
      = Inr (update_pokemon 1 (reduce_move_count toxic)
               (update_pokemon 0 (add_stat_modifier (0, - 50, 0, - 50) 4) ?e0), ?msgs)"
    by (rule toxic_apply) (simp_all add: early_fields)
  have lv: "is_valid (MoveAction toxic) ?l0 False = Inr True"
    by (rule toxic_valid) (simp_all add: late_fields)
  have la: "apply_action example_env (MoveAction toxic) ?l0 False
      = Inr (update_pokemon 1 (reduce_move_count toxic)
               (update_pokemon 0 (add_stat_modifier (0, - 50, 0, - 50) 4) ?l0), ?msgs)"
    by (rule toxic_apply) (simp_all add: late_fields)
  have cur: "get_current_pokemon (player (update_pokemon 1 (reduce_move_count toxic)
               (update_pokemon 0 (add_stat_modifier (0, - 50, 0, - 50) 4) ?l0))) = Inr 0"
    "get_current_pokemon (enemy (update_pokemon 1 (reduce_move_count toxic)
               (update_pokemon 0 (add_stat_modifier (0, - 50, 0, - 50) 4) ?l0))) = Inr 1"
    by (simp_all add: update_pokemon_fields late_fields current_ash current_brock)
  have m4: "stat_modifiers (objects ((update_pokemon 1 (reduce_move_count toxic)
                (update_pokemon 0 (add_stat_modifier (0, - 50, 0, - 50) 4) ?e0))
              \<lparr>turn := Some True\<rparr>) 0) = [((0, - 50, 0, - 50), 4)]"
    by (simp add: update_pokemon_def early_fields example_objects_def debuffed_modifiers)
  have m3: "stat_modifiers (objects (update_pokemon 1 post_round_actions
               (update_pokemon 0 post_round_actions
                 ((update_pokemon 1 (reduce_move_count toxic)
                    (update_pokemon 0 (add_stat_modifier (0, - 50, 0, - 50) 4) ?l0))
                  \<lparr>turn := None\<rparr>))) 0) = [((0, - 50, 0, - 50), 3)]"
    by (simp add: update_pokemon_def late_fields example_objects_def debuffed_modifiers
        stat_modifiers_post_round_actions)
  show ?thesis
    using upkeep_once_per_round [OF early_sorted ev ea, THEN conjunct1]
      upkeep_once_per_round [OF late_sorted lv la, THEN conjunct2, THEN conjunct1]
      early_sorted late_sorted ev lv cur m4 m3
    by (simp add: early_fields late_fields)
qed

text \<open>
  Instances: priorities 101 and 71 in both orders of submission, and equal priorities.
\<close>

theorem lower_priority_first_witness:
  "get_priority (MoveAction tackle) = 101 \<and> get_priority (MoveAction toxic) = 71
   \<and> enact_turn example_env
        (duel\<lparr>action_queue := [(MoveAction tackle, True), (MoveAction toxic, False)]\<rparr>)
       = resolve example_env (MoveAction toxic) False
           (duel\<lparr>action_queue := [(MoveAction tackle, True)]\<rparr>)
   \<and> enact_turn example_env
        (duel\<lparr>action_queue := [(MoveAction toxic, False), (MoveAction tackle, True)]\<rparr>)
       = resolve example_env (MoveAction toxic) False
           (duel\<lparr>action_queue := [(MoveAction tackle, True)]\<rparr>)
   \<and> enact_turn example_env (duel\<lparr>action_queue := [(Flee, False), (Flee, True)]\<rparr>)
       = resolve example_env Flee False (duel\<lparr>action_queue := [(Flee, True)]\<rparr>)
   \<and> enact_turn example_env (duel\<lparr>action_queue := [(MoveAction tackle, True)]\<rparr>)
       = resolve example_env (MoveAction tackle) True (duel\<lparr>action_queue := []\<rparr>)"
  using
    lower_priority_first [of "duel\<lparr>action_queue := [(MoveAction tackle, True), (MoveAction toxic, False)]\<rparr>"
      "MoveAction tackle" True "MoveAction toxic" False example_env, THEN conjunct1]
    lower_priority_first [of "duel\<lparr>action_queue := [(MoveAction toxic, False), (MoveAction tackle, True)]\<rparr>"
      "MoveAction toxic" False "MoveAction tackle" True example_env, THEN conjunct1]
    lower_priority_first [of "duel\<lparr>action_queue := [(Flee, False), (Flee, True)]\<rparr>"
      Flee False Flee True example_env, THEN conjunct1]
    lower_priority_first [of "duel\<lparr>action_queue := [(MoveAction tackle, True), (MoveAction toxic, False)]\<rparr>"
      "MoveAction tackle" True "MoveAction toxic" False example_env, THEN conjunct2, THEN conjunct2,
      rule_format, of "duel\<lparr>action_queue := [(MoveAction tackle, True)]\<rparr>" "MoveAction tackle" True]
  by (simp add: tackle_def toxic_def SPEED_BASED_ACTION_PRIORITY_def DEFAULT_ACTION_PRIORITY_def)

lemma learn_step_keeps:
  "level (learn_step m p) = level p" "experience (learn_step m p) = experience p"
  by (simp_all add: learn_step_def learn_move_def)

lemma fold_learn_step_keeps:
  "level (fold learn_step ms p) = level p \<and> experience (fold learn_step ms p) = experience p"
  by (induction ms arbitrary: p) (simp_all add: learn_step_keeps)

lemma Pokemon_init_level:
  "level (Pokemon_init n st et ms lvl) = lvl" "experience (Pokemon_init n st et ms lvl) = lvl ^ 3"
proof -
  have "(\<lambda>move p. if can_learn_move move p then learn_move move p else p) = learn_step"
    by (simp add: learn_step_def fun_eq_iff)
  then show "level (Pokemon_init n st et ms lvl) = lvl"
    "experience (Pokemon_init n st et ms lvl) = lvl ^ 3"
    unfolding Pokemon_init_def by (simp_all add: fold_learn_step_keeps)
qed

text \<open>
  Claim C4, at the input where the code departs from it. A pokemon built at level 3
  has 27 experience points and, by \<^verbatim>\<open>get_next_level_experience_requirement\<close>, needs 64 for
  level 4. When it gains 37 the total is 64; the source computes the new level as
  \<^verbatim>\<open>int(64 ** (1.0 / 3))\<close>, which floating point evaluates to 3, and then the pokemon
  does not level up: only its experience changes.
\<close>

theorem gain_experience_at_perfect_cube:
  assumes "cube_root env 64 = 3"
  shows "gain_experience env 37 (Pokemon_init n st et ms 3)
           = Inr ((Pokemon_init n st et ms 3)\<lparr>experience := 64\<rparr>)
       \<and> level ((Pokemon_init n st et ms 3)\<lparr>experience := 64\<rparr>) = 3
       \<and> get_next_level_experience_requirement (Pokemon_init n st et ms 3) = 64"
  using assms
  by (simp add: gain_experience_eq Pokemon_init_level get_next_level_experience_requirement_def)

text \<open>
  The instance of the example environment, whose cube root at 64 is 3.
\<close>

theorem gain_experience_at_perfect_cube_witness:
  "cube_root example_env 64 = 3
   \<and> gain_experience example_env 37 eevee = Inr (eevee\<lparr>experience := 64\<rparr>)
   \<and> level (eevee\<lparr>experience := 64\<rparr>) = 3
   \<and> get_next_level_experience_requirement eevee = 64"
proof -
  have c: "cube_root example_env 64 = 3"
    by (simp add: example_env_def example_cube_root_def)
  show ?thesis
    using gain_experience_at_perfect_cube [OF c, of "''Eevee''" "(1, 100, 100, 100)" "''normal''" "[]"] c
    by (simp add: eevee_def)
qed

text \<open>
  An instance: six moves with a repetition are passed; four are learned.
\<close>

theorem at_most_four_moves_witness:
  "moves (Pokemon_init ''Pikachu'' (1, 100, 200, 200) ''electric''
            [tackle, toxic, tackle, ember, growl, meditate] 5)
     = [(tackle, 15), (toxic, 10), (ember, 25), (growl, 40)]
   \<and> length (moves (fold move_op [Forget tackle, Learn meditate, Learn tackle]
         (Pokemon_init ''Pikachu'' (1, 100, 200, 200) ''electric''
            [tackle, toxic, tackle, ember, growl, meditate] 5))) \<le> MAXIMUM_MOVE_SLOTS"
proof -
  have "take MAXIMUM_MOVE_SLOTS (first_occurrences [tackle, toxic, tackle, ember, growl, meditate])
        = [tackle, toxic, ember, growl]"
    by (simp add: first_occurrences_def MAXIMUM_MOVE_SLOTS_def tackle_def toxic_def ember_def
        growl_def meditate_def)
  then show ?thesis
    using at_most_four_moves [of "''Pikachu''" "(1, 100, 200, 200)" "''electric''"
        "[tackle, toxic, tackle, ember, growl, meditate]" 5
        "[Forget tackle, Learn meditate, Learn tackle]"]
    by (simp add: tackle_def toxic_def ember_def growl_def)
qed

text \<open>
  Instances: indices 5 and -2 on a roster of one, and a new trainer.
\<close>

theorem switch_pokemon_unchecked_witness:
  "selected_pokemon (switch_pokemon 5 (add_pokemon 7 (Trainer_init ''Ash''))) = Some 5
   \<and> get_current_pokemon (switch_pokemon 5 (add_pokemon 7 (Trainer_init ''Ash''))) = Inl IndexError
   \<and> get_current_pokemon (switch_pokemon (- 2) (add_pokemon 7 (Trainer_init ''Ash''))) = Inl IndexError
   \<and> get_current_pokemon (Trainer_init ''Brock'') = Inl NoPokemonException"
  using switch_pokemon_unchecked [of 5 "add_pokemon 7 (Trainer_init ''Ash'')" "''Ash''" 7]
    switch_pokemon_unchecked [of "- 2" "add_pokemon 7 (Trainer_init ''Ash'')" "''Ash''" 7]
    switch_pokemon_unchecked [of 0 "Trainer_init ''Brock''" "''Brock''" 7]
  by (simp add: add_pokemon_def Trainer_init_def switch_pokemon_def get_current_pokemon_def
      py_index_def)

end
